theory Spec2Isabelle
  imports Main "HOL-Library.Word" "HOL-Library.Signed_Division"
begin

unbundle bit_operations_syntax

chapter \<open>The libslirp NAT transport driver (DrvNATlibslirp.cpp)\<close>

text \<open>
  A shallow embedding of the driver's instance data and of the functions that work on it.
  Pointers are addresses (\<open>None\<close> is the null pointer), C integers are words of their
  width, and whatever a function obtains from outside the file (the status of a request
  queue call, of a pipe write, of the device port, the address an allocation returns) is an
  argument of its model, so that a statement about the function holds for every outcome.
\<close>

section \<open>Definitions\<close>

subsection \<open>Status codes, thread and link states\<close>

type_synonym addr = nat

text \<open>
  The IPRT status codes the driver names. \<open>VINF_OTHER\<close> and \<open>VERR_OTHER\<close> stand for
  every other informational and every other error status; \<open>RT_SUCCESS\<close> is true of the
  non-negative ones. The states of a PDM thread and of the link are those the driver names,
  with the invalid value that zero-filled data holds.
\<close>

datatype vbox_status =
    VINF_SUCCESS
  | VINF_OTHER
  | VERR_NET_DOWN
  | VERR_NET_NO_BUFFER_SPACE
  | VERR_INVALID_PARAMETER
  | VERR_NO_MEMORY
  | VERR_TRY_AGAIN
  | VERR_TIMEOUT
  | VERR_INTERRUPTED
  | VERR_CFGM_VALUE_NOT_FOUND
  | VERR_PDM_MISSING_INTERFACE_ABOVE
  | VERR_INVALID_POINTER
  | VERR_OTHER

fun RT_SUCCESS :: "vbox_status \<Rightarrow> bool" where
  "RT_SUCCESS VINF_SUCCESS = True"
| "RT_SUCCESS VINF_OTHER = True"
| "RT_SUCCESS _ = False"

datatype PDMTHREADSTATE =
    PDMTHREADSTATE_INVALID
  | PDMTHREADSTATE_INITIALIZING
  | PDMTHREADSTATE_SUSPENDED
  | PDMTHREADSTATE_RUNNING
  | PDMTHREADSTATE_TERMINATING

datatype PDMNETWORKLINKSTATE =
    PDMNETWORKLINKSTATE_INVALID
  | PDMNETWORKLINKSTATE_UP
  | PDMNETWORKLINKSTATE_DOWN
  | PDMNETWORKLINKSTATE_DOWN_RESUME

text \<open>The two compilations of the file: with and without \<open>RT_OS_WINDOWS\<close>.\<close>

datatype host_os = HOST_POSIX | HOST_WINDOWS

subsection \<open>Poll event translation\<close>

text \<open>
  The engine's poll flags (libslirp.h) and the host's (poll.h, winsock2.h) are constants of
  headers outside the driver; their values are those of the headers.
\<close>

definition SLIRP_POLL_IN :: "32 word" where "SLIRP_POLL_IN = 1"
definition SLIRP_POLL_OUT :: "32 word" where "SLIRP_POLL_OUT = 2"
definition SLIRP_POLL_PRI :: "32 word" where "SLIRP_POLL_PRI = 4"
definition SLIRP_POLL_ERR :: "32 word" where "SLIRP_POLL_ERR = 8"
definition SLIRP_POLL_HUP :: "32 word" where "SLIRP_POLL_HUP = 16"

fun POLLIN :: "host_os \<Rightarrow> 32 word" where
  "POLLIN HOST_POSIX = 0x001"
| "POLLIN HOST_WINDOWS = 0x300"

fun POLLPRI :: "host_os \<Rightarrow> 32 word" where
  "POLLPRI HOST_POSIX = 0x002"
| "POLLPRI HOST_WINDOWS = 0x400"

fun POLLOUT :: "host_os \<Rightarrow> 32 word" where
  "POLLOUT HOST_POSIX = 0x004"
| "POLLOUT HOST_WINDOWS = 0x010"

fun POLLERR :: "host_os \<Rightarrow> 32 word" where
  "POLLERR HOST_POSIX = 0x008"
| "POLLERR HOST_WINDOWS = 0x001"

fun POLLHUP :: "host_os \<Rightarrow> 32 word" where
  "POLLHUP HOST_POSIX = 0x010"
| "POLLHUP HOST_WINDOWS = 0x002"

fun POLLRDNORM :: "host_os \<Rightarrow> 32 word" where
  "POLLRDNORM HOST_POSIX = 0x040"
| "POLLRDNORM HOST_WINDOWS = 0x100"

fun POLLRDBAND :: "host_os \<Rightarrow> 32 word" where
  "POLLRDBAND HOST_POSIX = 0x080"
| "POLLRDBAND HOST_WINDOWS = 0x200"

fun POLLWRNORM :: "host_os \<Rightarrow> 32 word" where
  "POLLWRNORM HOST_POSIX = 0x100"
| "POLLWRNORM HOST_WINDOWS = 0x010"

text \<open>\<open>if (iEvents & flag) iRet |= bits;\<close>\<close>

definition or_if :: "32 word \<Rightarrow> 32 word \<Rightarrow> 32 word \<Rightarrow> 32 word \<Rightarrow> 32 word" where
  "or_if iEvents flag bits iRet = (if iEvents AND flag \<noteq> 0 then iRet OR bits else iRet)"

fun drvNAT_PollEventSlirpToHost :: "host_os \<Rightarrow> 32 word \<Rightarrow> 32 word" where
  "drvNAT_PollEventSlirpToHost HOST_POSIX iEvents =
     (or_if iEvents SLIRP_POLL_HUP (POLLHUP HOST_POSIX)
     (or_if iEvents SLIRP_POLL_ERR (POLLERR HOST_POSIX)
     (or_if iEvents SLIRP_POLL_PRI (POLLPRI HOST_POSIX)
     (or_if iEvents SLIRP_POLL_OUT (POLLOUT HOST_POSIX)
     (or_if iEvents SLIRP_POLL_IN (POLLIN HOST_POSIX) 0)))))"
| "drvNAT_PollEventSlirpToHost HOST_WINDOWS iEvents =
     (or_if iEvents SLIRP_POLL_HUP 0
     (or_if iEvents SLIRP_POLL_ERR 0
     (or_if iEvents SLIRP_POLL_PRI (POLLIN HOST_WINDOWS)
     (or_if iEvents SLIRP_POLL_OUT (POLLWRNORM HOST_WINDOWS)
     (or_if iEvents SLIRP_POLL_IN (POLLRDNORM HOST_WINDOWS OR POLLRDBAND HOST_WINDOWS) 0)))))"

fun drvNAT_PollEventHostToSlirp :: "host_os \<Rightarrow> 32 word \<Rightarrow> 32 word" where
  "drvNAT_PollEventHostToSlirp HOST_POSIX iEvents =
     (or_if iEvents (POLLHUP HOST_POSIX) SLIRP_POLL_HUP
     (or_if iEvents (POLLERR HOST_POSIX) SLIRP_POLL_ERR
     (or_if iEvents (POLLPRI HOST_POSIX) SLIRP_POLL_PRI
     (or_if iEvents (POLLOUT HOST_POSIX) SLIRP_POLL_OUT
     (or_if iEvents (POLLIN HOST_POSIX) SLIRP_POLL_IN 0)))))"
| "drvNAT_PollEventHostToSlirp HOST_WINDOWS iEvents =
     (or_if iEvents (POLLHUP HOST_WINDOWS) SLIRP_POLL_HUP
     (or_if iEvents (POLLERR HOST_WINDOWS) SLIRP_POLL_ERR
     (or_if iEvents (POLLPRI HOST_WINDOWS) SLIRP_POLL_PRI
     (or_if iEvents (POLLWRNORM HOST_WINDOWS) SLIRP_POLL_OUT
     (or_if iEvents (POLLRDNORM HOST_WINDOWS OR POLLRDBAND HOST_WINDOWS) SLIRP_POLL_IN 0)))))"

text \<open>The five engine flags together: a value built from them has no other bit.\<close>

definition SLIRP_POLL_ALL :: "32 word" where
  "SLIRP_POLL_ALL =
     SLIRP_POLL_IN OR SLIRP_POLL_OUT OR SLIRP_POLL_PRI OR SLIRP_POLL_ERR OR SLIRP_POLL_HUP"

subsection \<open>Scatter/gather buffers, requests, timers and the instance data\<close>

text \<open>
  Modelled from the spec: \<open>PDMSCATTERGATHER\<close> and \<open>PDMNETWORKGSO\<close> are declared in
  pdmnetifs.h, which is not among the sources. Section 3 gives a buffer one segment, an
  allocator tag, a user tag, a magic value and an owner field, and a GSO frame a copy of
  the descriptor as its user tag; the records have these under the names the driver uses,
  and the descriptor has the header and segment sizes the driver adds up. A pointer to a
  structure is the address together with the structure it points to.
\<close>

record PDMNETWORKGSO =
  u8Type :: "8 word"
  cbHdrsTotal :: "8 word"
  cbHdrsSeg :: "8 word"
  cbMaxSeg :: "16 word"
  offHdr1 :: "8 word"
  offHdr2 :: "8 word"

record PDMSCATTERGATHER =
  fFlags :: "32 word"
  cbUsed :: "64 word"
  cbAvailable :: "64 word"
  pvAllocator :: "addr option"
  pvUser :: "(addr \<times> PDMNETWORKGSO) option"
  cSegs :: "16 word"
  aSegs0_cbSeg :: "64 word"
  aSegs0_pvSeg :: "addr option"

type_synonym PPDMSCATTERGATHER = "addr \<times> PDMSCATTERGATHER"

definition PDMSCATTERGATHER_FLAGS_MAGIC :: "32 word" where
  "PDMSCATTERGATHER_FLAGS_MAGIC = 0xb00b0000"

definition PDMSCATTERGATHER_FLAGS_OWNER_1 :: "32 word" where
  "PDMSCATTERGATHER_FLAGS_OWNER_1 = 0x00000001"

definition DRVNAT_MAXFRAMESIZE :: nat where
  "DRVNAT_MAXFRAMESIZE = 16 * 1024"

definition DRVNAT_DEFAULT_TIMEOUT :: "32 word" where
  "DRVNAT_DEFAULT_TIMEOUT = 3600 * 1000"

definition INADDR_ANY :: "32 word" where
  "INADDR_ANY = 0"

text \<open>A deferred call parked on one of the two request queues: the worker and its arguments.\<close>

datatype request =
    ReqSendWorker PPDMSCATTERGATHER
  | ReqRecvWorker "addr option" "64 word"
  | ReqNotifyLinkChangedWorker PDMNETWORKLINKSTATE
  | ReqApplyPortForwardCommand bool bool "string option" "16 word" "string option" "16 word"

text \<open>What the driver hands to the engine and to the device port above it.\<close>

datatype slirp_call =
    Slirp_input "addr option" "32 word"
  | Slirp_add_hostfwd bool "32 word" "16 word" "32 word" "16 word"
  | Slirp_remove_hostfwd bool "32 word" "16 word"

record SlirpTimer =
  next_timer :: "addr option"
  uTimeExpire :: "32 word"
  pHandler :: nat
  opaque :: nat

text \<open>
  The instance data \<open>DRVNAT\<close> with the timer list head of its \<open>SlirpState\<close>. A request
  queue is the list of its pending requests, oldest first. The control pipe is the number
  of bytes written into its write end and the number read from its read end. Memory is the
  record of the blocks handed out and of the blocks given back, in order; a timer's memory
  (\<open>timerMem\<close>) holds the node at an address while it is allocated.
\<close>

record DRVNAT =
  enmLinkState :: PDMNETWORKLINKSTATE
  enmLinkStateWant :: PDMNETWORKLINKSTATE
  pSlirpThread_enmState :: PDMTHREADSTATE
  hSlirpReqQueue :: "request list"
  hRecvReqQueue :: "request list"
  GuestIP :: "32 word"
  hPipeWrite :: nat
  hPipeRead :: nat
  cbWakeupNotifs :: "64 word"
  EventRecv :: bool
  DevAccessLock :: nat
  cPkts :: "32 word"
  pTimerHead :: "addr option"
  timerMem :: "addr \<Rightarrow> SlirpTimer option"
  memAllocated :: "addr list"
  memFreed :: "addr list"
  slirpCalls :: "slirp_call list"
  aboveNetReceived :: "(addr option \<times> 64 word) list"

text \<open>
  \<open>RTMemAlloc\<close>, \<open>RTMemAllocZ\<close> and \<open>RTMemDup\<close>: the allocator's answer \<open>p\<close> (null
  when it has no memory) is recorded. \<open>RTMemFree\<close> of the null pointer does nothing.
\<close>

definition RTMemAlloc :: "addr option \<Rightarrow> DRVNAT \<Rightarrow> DRVNAT" where
  "RTMemAlloc p pThis =
     (case p of None \<Rightarrow> pThis
      | Some a \<Rightarrow> pThis\<lparr>memAllocated := memAllocated pThis @ [a]\<rparr>)"

definition RTMemFree :: "addr option \<Rightarrow> DRVNAT \<Rightarrow> DRVNAT" where
  "RTMemFree p pThis =
     (case p of None \<Rightarrow> pThis
      | Some a \<Rightarrow> pThis\<lparr>memFreed := memFreed pThis @ [a]\<rparr>)"

subsection \<open>The wakeup channel\<close>

text \<open>
  Modelled from the spec: \<open>RTPipeWrite\<close> and \<open>RTPipeRead\<close> are IPRT functions outside
  the driver. A write that succeeds puts exactly one byte into the pipe (4.1: notify
  "writes exactly one byte"); a read takes the bytes asked for, as far as the pipe has
  them, and reports how many it took.
\<close>

definition RTPipeWrite1 :: "vbox_status \<Rightarrow> DRVNAT \<Rightarrow> DRVNAT" where
  "RTPipeWrite1 rc pThis =
     (if RT_SUCCESS rc then pThis\<lparr>hPipeWrite := hPipeWrite pThis + 1\<rparr> else pThis)"

definition RTPipeRead :: "nat \<Rightarrow> DRVNAT \<Rightarrow> nat \<times> DRVNAT" where
  "RTPipeRead cbToRead pThis =
     (let cbRead = min cbToRead (hPipeWrite pThis - hPipeRead pThis)
      in (cbRead, pThis\<lparr>hPipeRead := hPipeRead pThis + cbRead\<rparr>))"

text \<open>
  \<open>drvNATNotifyNATThread\<close> (POSIX compilation): \<open>rc\<close> is the status of the pipe write;
  the counter is incremented when it succeeded. The state \<open>s1\<close> is the one between the
  write and the increment.
\<close>

definition drvNATNotifyNATThread :: "vbox_status \<Rightarrow> DRVNAT \<Rightarrow> DRVNAT" where
  "drvNATNotifyNATThread rc pThis =
     (let s1 = RTPipeWrite1 rc pThis
      in if RT_SUCCESS rc then s1\<lparr>cbWakeupNotifs := cbWakeupNotifs s1 + 1\<rparr> else s1)"

text \<open>
  The drain of the poll loop in \<open>drvNATAsyncIoThread\<close> (POSIX compilation), after
  \<open>slirp_pollfds_poll\<close>: \<open>revents\<close> is \<open>polls[0].revents\<close>.
\<close>

definition drvNATAsyncIoThread_drain :: "32 word \<Rightarrow> DRVNAT \<Rightarrow> DRVNAT" where
  "drvNATAsyncIoThread_drain revents pThis =
     (if revents AND (POLLRDNORM HOST_POSIX OR POLLPRI HOST_POSIX OR POLLRDBAND HOST_POSIX) \<noteq> 0
      then
        (let cbNotifs = cbWakeupNotifs pThis;
             (cbRead, s1) = RTPipeRead (min (unat cbNotifs) 1024) pThis
         in s1\<lparr>cbWakeupNotifs := cbWakeupNotifs s1 - of_nat cbRead\<rparr>)
      else pThis)"

text \<open>
  The compilation for Windows (\<open>RT_OS_WINDOWS\<close>) has the socket pair \<open>pWakeupSockPair\<close> in the
  place of the pipe: there \<open>hPipeWrite\<close> counts the bytes sent on \<open>pWakeupSockPair[0]\<close> and
  \<open>hPipeRead\<close> the bytes received from \<open>pWakeupSockPair[1]\<close>. \<open>SOCKET_ERROR\<close> has the value
  of winsock2.h.
\<close>

definition SOCKET_ERROR :: int where "SOCKET_ERROR = - 1"

text \<open>
  Modelled from the spec: \<open>send\<close> is a Winsock function outside the driver. Whether a call
  fails comes from outside; one that does not puts its one byte into the channel (4.1:
  notify "writes exactly one byte") and returns 1, one that does moves nothing and returns
  \<open>SOCKET_ERROR\<close>.
\<close>

definition send :: "bool \<Rightarrow> DRVNAT \<Rightarrow> int \<times> DRVNAT" where
  "send fFails pThis =
     (if fFails then (SOCKET_ERROR, pThis)
      else (1, pThis\<lparr>hPipeWrite := hPipeWrite pThis + 1\<rparr>))"

text \<open>
  Modelled from the spec: \<open>recv\<close> is a Winsock function outside the driver, called on "a
  connected datagram socket pair" (4.1). What a call does comes from outside: it fails
  (\<open>None\<close>), moves nothing and returns \<open>SOCKET_ERROR\<close>; or the socket hands over \<open>n\<close> bytes,
  of which the call takes no more than it asked for and no more than the channel holds, and
  returns how many it took.
\<close>

definition recv :: "nat option \<Rightarrow> nat \<Rightarrow> DRVNAT \<Rightarrow> int \<times> DRVNAT" where
  "recv outcome len pThis =
     (case outcome of
        None \<Rightarrow> (SOCKET_ERROR, pThis)
      | Some n \<Rightarrow>
         (let cb = min n (min len (hPipeWrite pThis - hPipeRead pThis))
          in (int cb, pThis\<lparr>hPipeRead := hPipeRead pThis + cb\<rparr>)))"

text \<open>
  \<open>drvNATNotifyNATThread\<close> (Windows compilation): the counter is incremented unless \<open>send\<close>
  returned \<open>SOCKET_ERROR\<close>. The callers are the same in both compilations; what they pass
  on as the status of the write stands there for the outcome of \<open>send\<close>.
\<close>

definition drvNATNotifyNATThread_win :: "bool \<Rightarrow> DRVNAT \<Rightarrow> DRVNAT" where
  "drvNATNotifyNATThread_win fFails pThis =
     (let (cbWritten, s1) = send fFails pThis
      in if cbWritten = SOCKET_ERROR then s1
         else s1\<lparr>cbWakeupNotifs := cbWakeupNotifs s1 + 1\<rparr>)"

text \<open>
  The drain of the poll loop in \<open>drvNATAsyncIoThread\<close> (Windows compilation), after
  \<open>WSAPoll\<close>: index 0 is tested with \<open>POLLIN\<close>; the \<open>int\<close> that \<open>recv\<close> returns is stored in
  the \<open>size_t\<close> \<open>cbRead\<close> (64 bits wide) and subtracted from the counter unchecked.
\<close>

definition drvNATAsyncIoThread_drain_win :: "32 word \<Rightarrow> nat option \<Rightarrow> DRVNAT \<Rightarrow> DRVNAT" where
  "drvNATAsyncIoThread_drain_win revents outcome pThis =
     (if revents AND POLLIN HOST_WINDOWS \<noteq> 0
      then
        (let cbNotifs = cbWakeupNotifs pThis;
             (r, s1) = recv outcome (min (unat cbNotifs) 1024) pThis;
             cbRead = (word_of_int r :: 64 word)
         in s1\<lparr>cbWakeupNotifs := cbWakeupNotifs s1 - cbRead\<rparr>)
      else pThis)"

subsection \<open>The request queues\<close>

text \<open>
  Modelled from the spec: \<open>RTReqQueueCallEx\<close> is an IPRT function outside the driver
  (4.4). \<open>rc\<close> is the status it returns. A fire-and-forget call (\<open>RTREQFLAGS_NO_WAIT\<close>)
  has parked the request when it succeeds; a call that waits zero milliseconds has parked it
  when it succeeds or times out.
\<close>

definition RTReqQueueCallEx_NoWait :: "vbox_status \<Rightarrow> request \<Rightarrow> request list \<Rightarrow> request list" where
  "RTReqQueueCallEx_NoWait rc req q = (if RT_SUCCESS rc then q @ [req] else q)"

definition RTReqQueueCallEx_Wait0 :: "vbox_status \<Rightarrow> request \<Rightarrow> request list \<Rightarrow> request list" where
  "RTReqQueueCallEx_Wait0 rc req q =
     (if RT_SUCCESS rc then q @ [req] else if rc = VERR_TIMEOUT then q @ [req] else q)"

subsection \<open>The transmit path\<close>

definition drvNATFreeSgBuf :: "DRVNAT \<Rightarrow> PPDMSCATTERGATHER \<Rightarrow> DRVNAT" where
  "drvNATFreeSgBuf pThis pSgBuf =
     (let sg = snd pSgBuf in
      case pvAllocator sg of
        Some m \<Rightarrow> RTMemFree (Some (fst pSgBuf)) (RTMemFree (aSegs0_pvSeg sg) pThis)
      | None \<Rightarrow>
         (case pvUser sg of
            Some gso \<Rightarrow>
              RTMemFree (Some (fst pSgBuf))
                (RTMemFree (Some (fst gso)) (RTMemFree (aSegs0_pvSeg sg) pThis))
          | None \<Rightarrow> RTMemFree (Some (fst pSgBuf)) pThis))"

text \<open>
  Modelled from the spec: \<open>RT_ALIGN_Z\<close> is an IPRT macro outside the sources; 4.5 has the
  size as \<open>round_up(min_bytes, 128)\<close>. Here it is taken in the arithmetic of \<open>size_t\<close>:
  127 is added and the low seven bits are cleared.
\<close>

definition RT_ALIGN_Z_128 :: "64 word \<Rightarrow> 64 word" where
  "RT_ALIGN_Z_128 cb = (cb + 127) AND NOT 127"

definition PDMSCATTERGATHER_zero :: PDMSCATTERGATHER where
  "PDMSCATTERGATHER_zero =
     \<lparr>fFlags = 0, cbUsed = 0, cbAvailable = 0, pvAllocator = None, pvUser = None,
      cSegs = 0, aSegs0_cbSeg = 0, aSegs0_pvSeg = None\<rparr>"

text \<open>The initialisation at the end of \<open>drvNATNetworkUp_AllocBuf\<close>.\<close>

definition AllocBuf_init :: "PDMSCATTERGATHER \<Rightarrow> PDMSCATTERGATHER" where
  "AllocBuf_init sg =
     sg\<lparr>fFlags := PDMSCATTERGATHER_FLAGS_MAGIC OR PDMSCATTERGATHER_FLAGS_OWNER_1,
        cbUsed := 0, cbAvailable := aSegs0_cbSeg sg, cSegs := 1\<rparr>"

text \<open>
  \<open>drvNATNetworkUp_AllocBuf\<close>: \<open>aSg\<close>, \<open>aSeg\<close> and \<open>aGso\<close> are the allocator's answers
  for the structure, for the segment and for the copy of the GSO descriptor. The result is
  the status, what is stored through \<open>ppSgBuf\<close> (nothing on failure) and the instance.
\<close>

definition drvNATNetworkUp_AllocBuf ::
  "DRVNAT \<Rightarrow> 64 word \<Rightarrow> PDMNETWORKGSO option \<Rightarrow> addr option \<Rightarrow> addr option \<Rightarrow> addr option
    \<Rightarrow> vbox_status \<times> PPDMSCATTERGATHER option \<times> DRVNAT" where
  "drvNATNetworkUp_AllocBuf pThis cbMin pGso aSg aSeg aGso =
     (if pSlirpThread_enmState pThis = PDMTHREADSTATE_RUNNING then
        (case aSg of
           None \<Rightarrow> (VERR_NO_MEMORY, None, pThis)
         | Some pSgBuf \<Rightarrow>
            (let s1 = RTMemAlloc aSg pThis in
             case pGso of
               None \<Rightarrow>
                 (if unat cbMin \<ge> DRVNAT_MAXFRAMESIZE
                  then (VERR_INVALID_PARAMETER, None, RTMemFree aSg s1)
                  else
                    (let s2 = RTMemAlloc aSeg s1;
                         sg = PDMSCATTERGATHER_zero
                                \<lparr>pvUser := None, aSegs0_cbSeg := RT_ALIGN_Z_128 cbMin,
                                 aSegs0_pvSeg := aSeg, pvAllocator := aSeg\<rparr>
                     in case aSeg of
                          None \<Rightarrow> (VERR_TRY_AGAIN, None, RTMemFree aSg s2)
                        | Some m \<Rightarrow> (VINF_SUCCESS, Some (pSgBuf, AllocBuf_init sg), s2)))
             | Some gso \<Rightarrow>
                 (if unat (cbHdrsTotal gso) + unat (cbMaxSeg gso) \<ge> DRVNAT_MAXFRAMESIZE
                  then (VERR_INVALID_PARAMETER, None, RTMemFree aSg s1)
                  else
                    (let s2 = RTMemAlloc aSeg (RTMemAlloc aGso s1);
                         sg = PDMSCATTERGATHER_zero
                                \<lparr>pvUser := map_option (\<lambda>a. (a, gso)) aGso, pvAllocator := None,
                                 aSegs0_cbSeg := RT_ALIGN_Z_128 cbMin, aSegs0_pvSeg := aSeg\<rparr>
                     in case (aGso, aSeg) of
                          (Some u, Some m) \<Rightarrow> (VINF_SUCCESS, Some (pSgBuf, AllocBuf_init sg), s2)
                        | _ \<Rightarrow>
                            (VERR_TRY_AGAIN, None,
                             RTMemFree aSg (RTMemFree aGso (RTMemFree aSeg s2)))))))
      else (VERR_NET_DOWN, None, pThis))"

text \<open>
  \<open>drvNATNetworkUp_SendBuf\<close>: \<open>rcQueue\<close> is the status of \<open>RTReqQueueCallEx\<close> and
  \<open>rcPipe\<close> that of the pipe write of the wakeup.
\<close>

definition drvNATNetworkUp_SendBuf ::
  "DRVNAT \<Rightarrow> PPDMSCATTERGATHER \<Rightarrow> vbox_status \<Rightarrow> vbox_status \<Rightarrow> vbox_status \<times> DRVNAT" where
  "drvNATNetworkUp_SendBuf pThis pSgBuf rcQueue rcPipe =
     (if pSlirpThread_enmState pThis = PDMTHREADSTATE_RUNNING then
        (let s1 = pThis\<lparr>hSlirpReqQueue :=
                    RTReqQueueCallEx_NoWait rcQueue (ReqSendWorker pSgBuf) (hSlirpReqQueue pThis)\<rparr>
         in if RT_SUCCESS rcQueue
            then (VINF_SUCCESS, drvNATNotifyNATThread rcPipe s1)
            else (VERR_NET_NO_BUFFER_SPACE, drvNATFreeSgBuf s1 pSgBuf))
      else (VERR_NET_DOWN, drvNATFreeSgBuf pThis pSgBuf))"


subsection \<open>The receive path\<close>

text \<open>
  \<open>drvNAT_SendPacketCb\<close>: \<open>aNew\<close> is the allocator's answer for the copy of the
  packet, \<open>rcQueue\<close> the status of \<open>RTReqQueueCallEx\<close> on the receive queue, \<open>rcPipe\<close>
  that of the pipe write. The result is the \<open>ssize_t\<close> returned (as a 64-bit word, so
  \<open>-1\<close> is all ones) and the instance. \<open>drvNATRecvWakeup\<close> signals the receive event.
\<close>

definition drvNATRecvWakeup :: "DRVNAT \<Rightarrow> DRVNAT" where
  "drvNATRecvWakeup pThis = pThis\<lparr>EventRecv := True\<rparr>"

definition drvNAT_SendPacketCb ::
  "DRVNAT \<Rightarrow> 64 word \<Rightarrow> addr option \<Rightarrow> vbox_status \<Rightarrow> vbox_status \<Rightarrow> 64 word \<times> DRVNAT" where
  "drvNAT_SendPacketCb pThis cb aNew rcQueue rcPipe =
     (case aNew of
        None \<Rightarrow> (- 1, pThis)
      | Some pNewBuf \<Rightarrow>
         (let s1 = RTMemAlloc aNew pThis in
          if pSlirpThread_enmState s1 = PDMTHREADSTATE_RUNNING then
            (let s2 = s1\<lparr>cPkts := cPkts s1 + 1\<rparr>;
                 s3 = s2\<lparr>hRecvReqQueue :=
                        RTReqQueueCallEx_NoWait rcQueue (ReqRecvWorker aNew cb) (hRecvReqQueue s2)\<rparr>;
                 s4 = drvNATRecvWakeup s3;
                 s5 = drvNATNotifyNATThread rcPipe s4
             in (cb, s5))
          else (- 1, s1)))"

text \<open>
  \<open>drvNATRecvWorker\<close>: \<open>rcWait\<close> is the status of the device port's
  \<open>pfnWaitReceiveAvail\<close>, \<open>rcPipe\<close> that of the pipe write. The critical section is
  the count of its entries; the frame handed to \<open>pfnReceive\<close> is recorded.
\<close>

definition RTCritSectEnter_DevAccessLock :: "DRVNAT \<Rightarrow> DRVNAT" where
  "RTCritSectEnter_DevAccessLock pThis = pThis\<lparr>DevAccessLock := DevAccessLock pThis + 1\<rparr>"

definition RTCritSectLeave_DevAccessLock :: "DRVNAT \<Rightarrow> DRVNAT" where
  "RTCritSectLeave_DevAccessLock pThis = pThis\<lparr>DevAccessLock := DevAccessLock pThis - 1\<rparr>"

definition pfnReceive :: "addr option \<Rightarrow> 64 word \<Rightarrow> DRVNAT \<Rightarrow> DRVNAT" where
  "pfnReceive pBuf cb pThis = pThis\<lparr>aboveNetReceived := aboveNetReceived pThis @ [(pBuf, cb)]\<rparr>"

definition drvNATRecvWorker ::
  "DRVNAT \<Rightarrow> addr option \<Rightarrow> 64 word \<Rightarrow> vbox_status \<Rightarrow> vbox_status \<Rightarrow> DRVNAT" where
  "drvNATRecvWorker pThis pBuf cb rcWait rcPipe =
     (let s1 = RTCritSectEnter_DevAccessLock pThis;
          s2 = (if RT_SUCCESS rcWait then RTMemFree pBuf (pfnReceive pBuf cb s1) else s1);
          s3 = RTCritSectLeave_DevAccessLock s2;
          s4 = s3\<lparr>cPkts := cPkts s3 - 1\<rparr>
      in drvNATNotifyNATThread rcPipe s4)"

subsection \<open>Link state and port forwarding\<close>

definition drvNATNotifyLinkChangedWorker :: "DRVNAT \<Rightarrow> PDMNETWORKLINKSTATE \<Rightarrow> DRVNAT" where
  "drvNATNotifyLinkChangedWorker pThis enmLinkState' =
     pThis\<lparr>enmLinkStateWant := enmLinkState', enmLinkState := enmLinkState'\<rparr>"

text \<open>
  The two callers that wait for their request: the request is parked, the NAT thread is
  poked when the call timed out, and the caller then blocks until the NAT thread has run
  the worker; the model returns the instance at that point of blocking.
\<close>

definition drvNATNetworkUp_NotifyLinkChanged ::
  "DRVNAT \<Rightarrow> PDMNETWORKLINKSTATE \<Rightarrow> vbox_status \<Rightarrow> vbox_status \<Rightarrow> DRVNAT" where
  "drvNATNetworkUp_NotifyLinkChanged pThis enmLinkState' rcQueue rcPipe =
     (if pSlirpThread_enmState pThis = PDMTHREADSTATE_RUNNING then
        (let s1 = pThis\<lparr>hSlirpReqQueue :=
                    RTReqQueueCallEx_Wait0 rcQueue (ReqNotifyLinkChangedWorker enmLinkState')
                      (hSlirpReqQueue pThis)\<rparr>
         in if rcQueue = VERR_TIMEOUT then drvNATNotifyNATThread rcPipe s1 else s1)
      else pThis\<lparr>enmLinkStateWant := enmLinkState'\<rparr>)"

text \<open>
  \<open>drvNATNotifyApplyPortForwardCommand\<close>: \<open>inet_aton\<close> is the C library's parser
  (\<open>None\<close> where it returns 0).
\<close>

definition slirp_call :: "slirp_call \<Rightarrow> DRVNAT \<Rightarrow> DRVNAT" where
  "slirp_call c pThis = pThis\<lparr>slirpCalls := slirpCalls pThis @ [c]\<rparr>"

definition drvNATNotifyApplyPortForwardCommand ::
  "(string \<Rightarrow> 32 word option) \<Rightarrow> DRVNAT \<Rightarrow> bool \<Rightarrow> bool \<Rightarrow> string option \<Rightarrow> 16 word
     \<Rightarrow> string option \<Rightarrow> 16 word \<Rightarrow> DRVNAT" where
  "drvNATNotifyApplyPortForwardCommand inet_aton pThis fRemove fUdp pHostIp u16HostPort
       pGuestIp u16GuestPort =
     (let hostIp = (case pHostIp of
                      None \<Rightarrow> INADDR_ANY
                    | Some s \<Rightarrow> (case inet_aton s of None \<Rightarrow> INADDR_ANY | Some a \<Rightarrow> a));
          guestIp = (case pGuestIp of
                       None \<Rightarrow> GuestIP pThis
                     | Some s \<Rightarrow> (case inet_aton s of None \<Rightarrow> GuestIP pThis | Some a \<Rightarrow> a))
      in if fRemove
         then slirp_call (Slirp_remove_hostfwd fUdp hostIp u16HostPort) pThis
         else slirp_call (Slirp_add_hostfwd fUdp hostIp u16HostPort guestIp u16GuestPort) pThis)"

definition drvNATNetworkNatConfigRedirect ::
  "(string \<Rightarrow> 32 word option) \<Rightarrow> DRVNAT \<Rightarrow> bool \<Rightarrow> bool \<Rightarrow> string option \<Rightarrow> 16 word
     \<Rightarrow> string option \<Rightarrow> 16 word \<Rightarrow> vbox_status \<Rightarrow> vbox_status \<Rightarrow> vbox_status \<times> DRVNAT" where
  "drvNATNetworkNatConfigRedirect inet_aton pThis fRemove fUdp pHostIp u16HostPort
       pGuestIp u16GuestPort rcQueue rcPipe =
     (if pSlirpThread_enmState pThis = PDMTHREADSTATE_RUNNING then
        (let s1 = pThis\<lparr>hSlirpReqQueue :=
                    RTReqQueueCallEx_Wait0 rcQueue
                      (ReqApplyPortForwardCommand fRemove fUdp pHostIp u16HostPort
                         pGuestIp u16GuestPort)
                      (hSlirpReqQueue pThis)\<rparr>
         in if rcQueue = VERR_TIMEOUT
            then (VINF_SUCCESS, drvNATNotifyNATThread rcPipe s1)
            else (rcQueue, s1))
      else
        (VINF_SUCCESS,
         drvNATNotifyApplyPortForwardCommand inet_aton pThis fRemove fUdp pHostIp u16HostPort
           pGuestIp u16GuestPort))"


subsection \<open>The send worker\<close>

text \<open>
  \<open>PDMNetGsoIsValid\<close>, \<open>PDMNetGsoCalcSegmentCount\<close> and \<open>PDMNetGsoCarveSegment\<close>
  are inline functions of pdmnetinline.h, outside the driver: they are parameters, with
  the addresses the allocator returns for the scratch segments. The carve gives the payload
  offset, the size of the headers and the size of the payload.
\<close>

record gso_env =
  PDMNetGsoIsValid :: "PDMNETWORKGSO \<Rightarrow> 64 word \<Rightarrow> bool"
  PDMNetGsoCalcSegmentCount :: "PDMNETWORKGSO \<Rightarrow> 64 word \<Rightarrow> 32 word"
  PDMNetGsoCarveSegment ::
    "PDMNETWORKGSO \<Rightarrow> 64 word \<Rightarrow> 32 word \<Rightarrow> 32 word \<Rightarrow> 32 word \<times> 32 word \<times> 32 word"
  scratchAlloc :: "nat \<Rightarrow> addr option"

text \<open>
  One turn of the segmentation loop, and the worker. The program does not check the scratch
  allocation: where it returned null the model records the calls with the null pointer. A
  buffer with neither allocator nor user pointer would make the program read the descriptor
  through the null pointer; the model segments nothing there.
\<close>

definition drvNATSendWorker_segment ::
  "gso_env \<Rightarrow> PDMNETWORKGSO \<Rightarrow> 64 word \<Rightarrow> 32 word \<Rightarrow> nat \<Rightarrow> DRVNAT \<Rightarrow> DRVNAT" where
  "drvNATSendWorker_segment env gso cbFrame cSegs' iSeg pThis =
     (let pvSeg = scratchAlloc env iSeg;
          s1 = RTMemAlloc pvSeg pThis;
          (offPayload, cbHdrs, cbPayload) =
             PDMNetGsoCarveSegment env gso cbFrame (of_nat iSeg) cSegs';
          s2 = slirp_call (Slirp_input pvSeg (cbPayload + cbHdrs)) s1
      in RTMemFree pvSeg s2)"

definition drvNATSendWorker :: "gso_env \<Rightarrow> DRVNAT \<Rightarrow> PPDMSCATTERGATHER \<Rightarrow> DRVNAT" where
  "drvNATSendWorker env pThis pSgBuf =
     (let sg = snd pSgBuf;
          s1 =
            (if enmLinkState pThis = PDMNETWORKLINKSTATE_UP then
               (case pvAllocator sg of
                  Some m \<Rightarrow> slirp_call (Slirp_input (Some m) (ucast (cbUsed sg))) pThis
                | None \<Rightarrow>
                   (case pvUser sg of
                      None \<Rightarrow> pThis
                    | Some pGso \<Rightarrow>
                       (if PDMNetGsoIsValid env (snd pGso) (cbUsed sg) then
                          (let cSegs' = PDMNetGsoCalcSegmentCount env (snd pGso) (cbUsed sg)
                           in fold (drvNATSendWorker_segment env (snd pGso) (cbUsed sg) cSegs')
                                [0..<unat cSegs'] pThis)
                        else pThis)))
             else pThis)
      in drvNATFreeSgBuf s1 pSgBuf)"

subsection \<open>Timers\<close>

definition drvNAT_TimerNewCb ::
  "DRVNAT \<Rightarrow> nat \<Rightarrow> nat \<Rightarrow> addr option \<Rightarrow> addr option \<times> DRVNAT" where
  "drvNAT_TimerNewCb pThis slirpTimeCb cb_opaque aNew =
     (case aNew of
        None \<Rightarrow> (None, pThis)
      | Some pNewTimer \<Rightarrow>
         (let s1 = RTMemAlloc aNew pThis;
              t = \<lparr>next_timer = pTimerHead s1, uTimeExpire = 0,
                   pHandler = slirpTimeCb, opaque = cb_opaque\<rparr>
          in (Some pNewTimer,
              s1\<lparr>timerMem := (timerMem s1)(pNewTimer \<mapsto> t), pTimerHead := Some pNewTimer\<rparr>)))"

text \<open>
  Reading or writing a node through a pointer that is null or whose memory is not
  allocated has no defined result: the functions below return \<open>None\<close> there.
\<close>

definition drvNAT_TimerModCb :: "DRVNAT \<Rightarrow> addr option \<Rightarrow> 64 word \<Rightarrow> DRVNAT option" where
  "drvNAT_TimerModCb pThis pTimer expireTime =
     (case pTimer of
        None \<Rightarrow> None
      | Some p \<Rightarrow>
         (case timerMem pThis p of
            None \<Rightarrow> None
          | Some t \<Rightarrow>
              Some (pThis\<lparr>timerMem := (timerMem pThis)(p \<mapsto> t\<lparr>uTimeExpire := ucast expireTime\<rparr>)\<rparr>)))"

text \<open>\<open>RTMemFree\<close> of a timer node: its memory is given back.\<close>

definition RTMemFree_timer :: "addr \<Rightarrow> DRVNAT \<Rightarrow> DRVNAT" where
  "RTMemFree_timer p pThis = (RTMemFree (Some p) pThis)\<lparr>timerMem := (timerMem pThis)(p := None)\<rparr>"

text \<open>The loop of \<open>drvNAT_TimerFreeCb\<close>, from \<open>pCurrent\<close>.\<close>

partial_function (option) drvNAT_TimerFreeCb_loop ::
  "addr option \<Rightarrow> addr option \<Rightarrow> DRVNAT \<Rightarrow> DRVNAT option" where
  "drvNAT_TimerFreeCb_loop pTimer pCurrent pThis =
     (case pCurrent of
        None \<Rightarrow> Some pThis
      | Some p \<Rightarrow>
         (case timerMem pThis p of
            None \<Rightarrow> None
          | Some t \<Rightarrow>
             (if pCurrent = pTimer
              then drvNAT_TimerFreeCb_loop pTimer (next_timer t) (RTMemFree_timer p pThis)
              else drvNAT_TimerFreeCb_loop pTimer (next_timer t) pThis)))"

definition drvNAT_TimerFreeCb :: "DRVNAT \<Rightarrow> addr option \<Rightarrow> DRVNAT option" where
  "drvNAT_TimerFreeCb pThis pTimer = drvNAT_TimerFreeCb_loop pTimer (pTimerHead pThis) pThis"

text \<open>
  \<open>drvNAT_UpdateTimeout\<close>: \<open>ns\<close> is what \<open>drvNAT_ClockGetNsCb\<close> returns. The current
  time is the signed quotient, cut to the 32 bits of \<open>currTime\<close>. The difference of the two
  \<open>uint32_t\<close> values is taken in 32 bits and then widened to the \<open>int64_t\<close> \<open>diff\<close>;
  the comparisons are signed comparisons in 64 bits.
\<close>

definition UpdateTimeout_currTime :: "64 word \<Rightarrow> 32 word" where
  "UpdateTimeout_currTime ns = word_of_int (sint ns sdiv (1000 * 1000))"

definition UpdateTimeout_step :: "32 word \<Rightarrow> SlirpTimer \<Rightarrow> 32 word \<Rightarrow> 32 word" where
  "UpdateTimeout_step currTime t uTimeout =
     (if uTimeExpire t \<noteq> 0 then
        (let diff = (ucast (uTimeExpire t - currTime) :: 64 word);
             diff = (if sint diff < 0 then 0 else diff)
         in if sint diff < sint (ucast uTimeout :: 64 word) then ucast diff else uTimeout)
      else uTimeout)"

partial_function (option) drvNAT_UpdateTimeout_loop ::
  "(addr \<Rightarrow> SlirpTimer option) \<Rightarrow> 32 word \<Rightarrow> addr option \<Rightarrow> 32 word \<Rightarrow> 32 word option" where
  "drvNAT_UpdateTimeout_loop mem currTime pCurrent uTimeout =
     (case pCurrent of
        None \<Rightarrow> Some uTimeout
      | Some p \<Rightarrow>
         (case mem p of
            None \<Rightarrow> None
          | Some t \<Rightarrow>
              drvNAT_UpdateTimeout_loop mem currTime (next_timer t)
                (UpdateTimeout_step currTime t uTimeout)))"

definition drvNAT_UpdateTimeout :: "DRVNAT \<Rightarrow> 64 word \<Rightarrow> 32 word \<Rightarrow> 32 word option" where
  "drvNAT_UpdateTimeout pThis ns uTimeout =
     drvNAT_UpdateTimeout_loop (timerMem pThis) (UpdateTimeout_currTime ns)
       (pTimerHead pThis) uTimeout"

text \<open>
  The difference as \<open>drvNAT_CheckTimeout\<close> takes it: there \<open>currTime\<close> is an
  \<open>int64_t\<close>, so the subtraction is a signed one in 64 bits.
\<close>

definition CheckTimeout_diff :: "64 word \<Rightarrow> SlirpTimer \<Rightarrow> int" where
  "CheckTimeout_diff ns t =
     sint ((ucast (uTimeExpire t) :: 64 word) - word_of_int (sint ns sdiv (1000 * 1000)))"


subsection \<open>Construction\<close>

text \<open>
  Modelled from the spec: \<open>RTNetIPv4AddrHEToInAddr\<close>, \<open>RT_BYTE2\<close> and \<open>RT_BYTE3\<close>
  belong to IPRT headers outside the sources. Section 6 has bytes 6 and 7 of the IPv6
  addresses overwritten with bytes 2 and 3 of the IPv4 address. The first function turns a
  host-endian address into the \<open>s_addr\<close> of network byte order, which on a little-endian
  host reverses the four bytes; \<open>RT_BYTE2\<close> and \<open>RT_BYTE3\<close> are the second and the
  third lowest byte of a value, so of an \<open>s_addr\<close> the second and third octet of the
  address.
\<close>

definition RTNetIPv4AddrHEToInAddr :: "32 word \<Rightarrow> 32 word" where
  "RTNetIPv4AddrHEToInAddr u =
     push_bit 24 (u AND 0xFF) OR push_bit 8 (u AND 0xFF00)
       OR (drop_bit 8 u AND 0xFF00) OR drop_bit 24 u"

definition RT_BYTE2 :: "32 word \<Rightarrow> 8 word" where
  "RT_BYTE2 a = ucast (drop_bit 8 a)"

definition RT_BYTE3 :: "32 word \<Rightarrow> 8 word" where
  "RT_BYTE3 a = ucast (drop_bit 16 a)"

text \<open>The octets of a host-endian address \<open>A.B.C.D\<close>, for stating results.\<close>

definition octet_B :: "32 word \<Rightarrow> 8 word" where
  "octet_B u = ucast (drop_bit 16 u)"

definition octet_C :: "32 word \<Rightarrow> 8 word" where
  "octet_C u = ucast (drop_bit 8 u)"

record SlirpConfig =
  version :: "32 word"
  restricted :: bool
  in_enabled :: bool
  vnetwork :: "32 word"
  vnetmask :: "32 word"
  vhost :: "32 word"
  in6_enabled :: bool
  vprefix_addr6 :: "8 word list"
  vprefix_len :: "8 word"
  vhost6 :: "8 word list"
  vnameserver6 :: "8 word list"
  vhostname :: string
  vdhcp_start :: "32 word"
  vnameserver :: "32 word"
  if_mtu :: "32 word"

text \<open>What \<open>inet_pton(AF_INET6, ...)\<close> stores for the three literals of the constructor.\<close>

definition in6_fd17_625c_f037_0 :: "8 word \<Rightarrow> 8 word list" where
  "in6_fd17_625c_f037_0 last_byte =
     [0xfd, 0x17, 0x62, 0x5c, 0xf0, 0x37, 0, 0, 0, 0, 0, 0, 0, 0, 0, last_byte]"

text \<open>
  The engine configuration the constructor builds from the parsed \<open>Network\<close> and
  \<open>Netmask\<close> (both host-endian) and the MTU.
\<close>

definition drvNATConstruct_slirpCfg :: "32 word \<Rightarrow> 32 word \<Rightarrow> 32 word \<Rightarrow> SlirpConfig" where
  "drvNATConstruct_slirpCfg Network Netmask MTU =
     (let vnetwork' = RTNetIPv4AddrHEToInAddr Network;
          vnetmask' = RTNetIPv4AddrHEToInAddr Netmask;
          vhost' = RTNetIPv4AddrHEToInAddr (Network OR 2);
          vdhcp_start' = RTNetIPv4AddrHEToInAddr (Network OR 15);
          vnameserver' = RTNetIPv4AddrHEToInAddr (Network OR 3)
      in \<lparr>version = 4, restricted = False, in_enabled = True,
          vnetwork = vnetwork', vnetmask = vnetmask', vhost = vhost',
          in6_enabled = True,
          vprefix_addr6 = (in6_fd17_625c_f037_0 0)[6 := RT_BYTE2 vhost', 7 := RT_BYTE3 vhost'],
          vprefix_len = 64,
          vhost6 = (in6_fd17_625c_f037_0 2)[6 := RT_BYTE2 vhost', 7 := RT_BYTE3 vhost'],
          vnameserver6 =
            (in6_fd17_625c_f037_0 3)[6 := RT_BYTE2 vnameserver', 7 := RT_BYTE3 vnameserver'],
          vhostname = ''vbox'',
          vdhcp_start = vdhcp_start', vnameserver = vnameserver', if_mtu = MTU\<rparr>)"

text \<open>
  The instance data as PDM hands it to the constructor: \<open>cbInstance\<close> bytes of zeros
  (the driver relies on it: no function of it assigns \<open>GuestIP\<close>, and \<open>cPkts\<close> is only
  ever incremented and decremented).
\<close>

definition DRVNAT_zero :: DRVNAT where
  "DRVNAT_zero =
     \<lparr>enmLinkState = PDMNETWORKLINKSTATE_INVALID,
      enmLinkStateWant = PDMNETWORKLINKSTATE_INVALID,
      pSlirpThread_enmState = PDMTHREADSTATE_INVALID,
      hSlirpReqQueue = [], hRecvReqQueue = [],
      GuestIP = 0, hPipeWrite = 0, hPipeRead = 0, cbWakeupNotifs = 0,
      EventRecv = False, DevAccessLock = 0, cPkts = 0,
      pTimerHead = None, timerMem = (\<lambda>a. None),
      memAllocated = [], memFreed = [], slirpCalls = [], aboveNetReceived = []\<rparr>"

text \<open>
  What the constructor reads from outside: whether the device above exports both
  interfaces, the configured \<open>Network\<close> string, the answer of \<open>RTCidrStrToIPv4\<close> to it,
  the MTU, whether \<open>slirp_new\<close> returned an engine, and the first failure (or success) of
  the remaining set-up calls (redirections, queues, threads, event, locks, pipe).
\<close>

record construct_env =
  envAbove :: bool
  envNetwork :: "string option"
  envRTCidrStrToIPv4 :: "string \<Rightarrow> vbox_status \<times> 32 word \<times> 32 word"
  envMTU :: "32 word"
  envSlirpNew :: bool
  envSetup :: vbox_status

definition drvNATConstruct ::
  "construct_env \<Rightarrow> DRVNAT \<Rightarrow> vbox_status \<times> SlirpConfig option \<times> DRVNAT" where
  "drvNATConstruct env pThis =
     (let s1 = pThis\<lparr>pTimerHead := None, hSlirpReqQueue := [], EventRecv := False\<rparr> in
      if envAbove env then
        (case envNetwork env of
           None \<Rightarrow> (VERR_CFGM_VALUE_NOT_FOUND, None, s1)
         | Some szNetwork \<Rightarrow>
            (case envRTCidrStrToIPv4 env szNetwork of
               (rc, Network, Netmask) \<Rightarrow>
                 if RT_SUCCESS rc then
                   (let slirpCfg = drvNATConstruct_slirpCfg Network Netmask (envMTU env) in
                    if envSlirpNew env then
                      (if RT_SUCCESS (envSetup env) then
                         (envSetup env, Some slirpCfg,
                          s1\<lparr>hSlirpReqQueue := [], hRecvReqQueue := [],
                             cbWakeupNotifs := 0,
                             pSlirpThread_enmState := PDMTHREADSTATE_INITIALIZING,
                             enmLinkStateWant := PDMNETWORKLINKSTATE_UP,
                             enmLinkState := PDMNETWORKLINKSTATE_UP\<rparr>)
                       else (envSetup env, Some slirpCfg, s1))
                    else (VERR_INVALID_POINTER, Some slirpCfg, s1))
                 else (rc, None, s1)))
      else (VERR_PDM_MISSING_INTERFACE_ABOVE, None, s1))"

subsection \<open>Runs of the driver\<close>

text \<open>
  The entry points as operations, each with what it obtains from outside. PDM moves the
  NAT thread between its states; a queue is served one request at a time, oldest first.
  A notify and a drain are each one operation, in either compilation.
\<close>

record drv_env =
  env_inet_aton :: "string \<Rightarrow> 32 word option"
  env_gso :: gso_env

datatype drv_op =
    OpThreadState PDMTHREADSTATE
  | OpAllocBuf "64 word" "PDMNETWORKGSO option" "addr option" "addr option" "addr option"
  | OpFreeBuf PPDMSCATTERGATHER
  | OpSendBuf PPDMSCATTERGATHER vbox_status vbox_status
  | OpNotifyLinkChanged PDMNETWORKLINKSTATE vbox_status vbox_status
  | OpRedirect bool bool "string option" "16 word" "string option" "16 word"
      vbox_status vbox_status
  | OpSendPacketCb "64 word" "addr option" vbox_status vbox_status
  | OpNotify vbox_status
  | OpDrain "32 word"
  | OpNotifyWin bool
  | OpDrainWin "32 word" "nat option"
  | OpAsyncIoThreadEntry
  | OpSlirpReqProcess vbox_status vbox_status
  | OpRecvReqProcess vbox_status vbox_status
  | OpTimerNew nat nat "addr option"
  | OpTimerMod "addr option" "64 word"
  | OpTimerFree "addr option"

text \<open>A request as the queue's consumer runs it.\<close>

fun run_request :: "drv_env \<Rightarrow> vbox_status \<Rightarrow> vbox_status \<Rightarrow> request \<Rightarrow> DRVNAT \<Rightarrow> DRVNAT" where
  "run_request env rcWait rcPipe (ReqSendWorker pSgBuf) pThis =
     drvNATSendWorker (env_gso env) pThis pSgBuf"
| "run_request env rcWait rcPipe (ReqRecvWorker pBuf cb) pThis =
     drvNATRecvWorker pThis pBuf cb rcWait rcPipe"
| "run_request env rcWait rcPipe (ReqNotifyLinkChangedWorker l) pThis =
     drvNATNotifyLinkChangedWorker pThis l"
| "run_request env rcWait rcPipe (ReqApplyPortForwardCommand fRemove fUdp pHostIp hp pGuestIp gp)
       pThis =
     drvNATNotifyApplyPortForwardCommand (env_inet_aton env) pThis fRemove fUdp pHostIp hp
       pGuestIp gp"

text \<open>The start of \<open>drvNATAsyncIoThread\<close> on an entry past the initialising one.\<close>

definition drvNATAsyncIoThread_entry :: "DRVNAT \<Rightarrow> DRVNAT" where
  "drvNATAsyncIoThread_entry pThis =
     (if pSlirpThread_enmState pThis = PDMTHREADSTATE_INITIALIZING then pThis
      else if enmLinkStateWant pThis = enmLinkState pThis then pThis
      else drvNATNotifyLinkChangedWorker pThis (enmLinkStateWant pThis))"

fun exec :: "drv_env \<Rightarrow> drv_op \<Rightarrow> DRVNAT \<Rightarrow> DRVNAT option" where
  "exec env (OpThreadState t) pThis = Some (pThis\<lparr>pSlirpThread_enmState := t\<rparr>)"
| "exec env (OpAllocBuf cbMin pGso aSg aSeg aGso) pThis =
     Some (snd (snd (drvNATNetworkUp_AllocBuf pThis cbMin pGso aSg aSeg aGso)))"
| "exec env (OpFreeBuf pSgBuf) pThis = Some (drvNATFreeSgBuf pThis pSgBuf)"
| "exec env (OpSendBuf pSgBuf rcQueue rcPipe) pThis =
     Some (snd (drvNATNetworkUp_SendBuf pThis pSgBuf rcQueue rcPipe))"
| "exec env (OpNotifyLinkChanged l rcQueue rcPipe) pThis =
     Some (drvNATNetworkUp_NotifyLinkChanged pThis l rcQueue rcPipe)"
| "exec env (OpRedirect fRemove fUdp pHostIp hp pGuestIp gp rcQueue rcPipe) pThis =
     Some (snd (drvNATNetworkNatConfigRedirect (env_inet_aton env) pThis fRemove fUdp pHostIp hp
                  pGuestIp gp rcQueue rcPipe))"
| "exec env (OpSendPacketCb cb aNew rcQueue rcPipe) pThis =
     Some (snd (drvNAT_SendPacketCb pThis cb aNew rcQueue rcPipe))"
| "exec env (OpNotify rcPipe) pThis = Some (drvNATNotifyNATThread rcPipe pThis)"
| "exec env (OpDrain revents) pThis = Some (drvNATAsyncIoThread_drain revents pThis)"
| "exec env (OpNotifyWin fFails) pThis = Some (drvNATNotifyNATThread_win fFails pThis)"
| "exec env (OpDrainWin revents outcome) pThis =
     Some (drvNATAsyncIoThread_drain_win revents outcome pThis)"
| "exec env OpAsyncIoThreadEntry pThis = Some (drvNATAsyncIoThread_entry pThis)"
| "exec env (OpSlirpReqProcess rcWait rcPipe) pThis =
     (case hSlirpReqQueue pThis of
        [] \<Rightarrow> Some pThis
      | r # q \<Rightarrow> Some (run_request env rcWait rcPipe r (pThis\<lparr>hSlirpReqQueue := q\<rparr>)))"
| "exec env (OpRecvReqProcess rcWait rcPipe) pThis =
     (case hRecvReqQueue pThis of
        [] \<Rightarrow> Some pThis
      | r # q \<Rightarrow> Some (run_request env rcWait rcPipe r (pThis\<lparr>hRecvReqQueue := q\<rparr>)))"
| "exec env (OpTimerNew cb cb_opaque aNew) pThis =
     Some (snd (drvNAT_TimerNewCb pThis cb cb_opaque aNew))"
| "exec env (OpTimerMod pTimer expireTime) pThis = drvNAT_TimerModCb pThis pTimer expireTime"
| "exec env (OpTimerFree pTimer) pThis = drvNAT_TimerFreeCb pThis pTimer"

fun run :: "drv_env \<Rightarrow> drv_op list \<Rightarrow> DRVNAT \<Rightarrow> DRVNAT option" where
  "run env [] pThis = Some pThis"
| "run env (x # xs) pThis =
     (case exec env x pThis of None \<Rightarrow> None | Some s \<Rightarrow> run env xs s)"


subsection \<open>Notions for stating the results\<close>

text \<open>
  The two conventions of a buffer: an ordinary frame has the segment as its allocator and
  no user pointer; a GSO frame has no allocator, a copy of the descriptor as user pointer
  and a segment.
\<close>

definition sg_wellformed :: "PDMSCATTERGATHER \<Rightarrow> bool" where
  "sg_wellformed sg =
     (case pvAllocator sg of
        Some m \<Rightarrow> pvUser sg = None \<and> aSegs0_pvSeg sg = Some m
      | None \<Rightarrow>
         (case pvUser sg of
            None \<Rightarrow> False
          | Some g \<Rightarrow> (case aSegs0_pvSeg sg of None \<Rightarrow> False | Some m \<Rightarrow> True)))"

text \<open>The memory of a buffer: its segment, its GSO copy, the structure itself.\<close>

definition sg_blocks :: "PPDMSCATTERGATHER \<Rightarrow> addr list" where
  "sg_blocks pSgBuf =
     (case aSegs0_pvSeg (snd pSgBuf) of None \<Rightarrow> [] | Some m \<Rightarrow> [m])
     @ (case pvUser (snd pSgBuf) of None \<Rightarrow> [] | Some g \<Rightarrow> [fst g])
     @ [fst pSgBuf]"

text \<open>The blocks of an allocator's answers, in order.\<close>

fun blocks_of :: "addr option list \<Rightarrow> addr list" where
  "blocks_of [] = []"
| "blocks_of (None # ps) = blocks_of ps"
| "blocks_of (Some a # ps) = a # blocks_of ps"


text \<open>
  The in-flight counter agrees with the queues: it counts the receive workers parked on
  the receive queue, which holds nothing else, and no receive worker is parked on the
  engine queue. An operation whose enqueue on the receive queue is not refused.
\<close>

fun is_RecvWorker :: "request \<Rightarrow> bool" where
  "is_RecvWorker (ReqRecvWorker pBuf cb) = True"
| "is_RecvWorker r = False"

definition cPkts_inv :: "DRVNAT \<Rightarrow> bool" where
  "cPkts_inv pThis =
     (cPkts pThis = of_nat (length (hRecvReqQueue pThis))
      \<and> list_all is_RecvWorker (hRecvReqQueue pThis)
      \<and> list_all (\<lambda>r. is_RecvWorker r = False) (hSlirpReqQueue pThis))"

fun enqueue_accepted :: "drv_op \<Rightarrow> bool" where
  "enqueue_accepted (OpSendPacketCb cb aNew rcQueue rcPipe) = RT_SUCCESS rcQueue"
| "enqueue_accepted x = True"

text \<open>The wakeup counter agrees with the channel.\<close>

definition wakeup_inv :: "DRVNAT \<Rightarrow> bool" where
  "wakeup_inv pThis =
     (cbWakeupNotifs pThis = of_nat (hPipeWrite pThis - hPipeRead pThis)
      \<and> hPipeRead pThis \<le> hPipeWrite pThis)"

text \<open>An operation in which no \<open>recv\<close> on the wakeup socket fails.\<close>

fun recv_succeeded :: "drv_op \<Rightarrow> bool" where
  "recv_succeeded (OpDrainWin revents None) = (revents AND POLLIN HOST_WINDOWS = 0)"
| "recv_succeeded x = True"

subsection \<open>Sample instances\<close>

text \<open>
  An instance after a successful construction whose NAT thread PDM has set running, an
  ordinary frame of 60 bytes in a 128-byte segment, and a GSO frame.
\<close>

definition sample_env :: construct_env where
  "sample_env =
     \<lparr>envAbove = True, envNetwork = Some ''10.0.2.0/24'',
      envRTCidrStrToIPv4 = (\<lambda>s. (VINF_SUCCESS, 0x0A000200, 0xFFFFFF00)),
      envMTU = 1500, envSlirpNew = True, envSetup = VINF_SUCCESS\<rparr>"

definition sample_running :: DRVNAT where
  "sample_running =
     (snd (snd (drvNATConstruct sample_env DRVNAT_zero)))
       \<lparr>pSlirpThread_enmState := PDMTHREADSTATE_RUNNING\<rparr>"

definition sample_frame :: PPDMSCATTERGATHER where
  "sample_frame =
     (7, (AllocBuf_init (PDMSCATTERGATHER_zero
            \<lparr>aSegs0_cbSeg := 128, aSegs0_pvSeg := Some 9, pvAllocator := Some 9\<rparr>))
           \<lparr>cbUsed := 60\<rparr>)"


text \<open>
  The sample instance with two timers (the node at 30 heads the list, the node at 20
  follows), with one timer armed for the millisecond 100, and with one packet for the guest
  parked on the receive queue.
\<close>

definition sample_two_timers :: DRVNAT where
  "sample_two_timers =
     snd (drvNAT_TimerNewCb (snd (drvNAT_TimerNewCb sample_running 1 0 (Some 20))) 1 0 (Some 30))"

definition sample_armed :: DRVNAT where
  "sample_armed =
     (snd (drvNAT_TimerNewCb sample_running 1 0 (Some 20)))
       \<lparr>timerMem := (timerMem (snd (drvNAT_TimerNewCb sample_running 1 0 (Some 20))))
          (20 \<mapsto> \<lparr>next_timer = None, uTimeExpire = 100, pHandler = 1, opaque = 0\<rparr>)\<rparr>"

definition sample_packet_parked :: DRVNAT where
  "sample_packet_parked =
     snd (drvNAT_SendPacketCb sample_running 60 (Some 40) VINF_SUCCESS VINF_SUCCESS)"

definition sample_drv_env :: drv_env where
  "sample_drv_env =
     \<lparr>env_inet_aton = (\<lambda>s. if s = ''10.0.2.15'' then Some 0x0F02000A else None),
      env_gso = \<lparr>PDMNetGsoIsValid = (\<lambda>g cb. False),
                 PDMNetGsoCalcSegmentCount = (\<lambda>g cb. 0),
                 PDMNetGsoCarveSegment = (\<lambda>g cb i n. (0, 0, 0)),
                 scratchAlloc = (\<lambda>i. None)\<rparr>\<rparr>"


section \<open>Theorems\<close>

subsection \<open>Poll event translation\<close>

lemmas slirp_poll_defs =
  SLIRP_POLL_IN_def SLIRP_POLL_OUT_def SLIRP_POLL_PRI_def SLIRP_POLL_ERR_def
  SLIRP_POLL_HUP_def SLIRP_POLL_ALL_def

lemma slirp_flags_small:
  assumes "iEvents AND SLIRP_POLL_ALL = iEvents"
  shows "unat iEvents \<in> set [0..<32]"
proof -
  have "iEvents AND 31 \<le> 31"
    by (rule word_and_le1)
  moreover have "iEvents AND 31 = iEvents"
    using assms by (simp add: slirp_poll_defs)
  ultimately have "iEvents \<le> 31"
    by simp
  then show ?thesis
    by (simp add: word_le_nat_alt)
qed

lemma poll_roundtrip_posix_table:
  "list_all (\<lambda>n. drvNAT_PollEventHostToSlirp HOST_POSIX
        (drvNAT_PollEventSlirpToHost HOST_POSIX (of_nat n)) = of_nat n) [0..<32]"
  by code_simp

lemma poll_roundtrip_windows_table:
  "list_all (\<lambda>n. drvNAT_PollEventHostToSlirp HOST_WINDOWS
        (drvNAT_PollEventSlirpToHost HOST_WINDOWS (of_nat n)) =
      ((of_nat n AND (SLIRP_POLL_IN OR SLIRP_POLL_OUT)) OR
       (if of_nat n AND SLIRP_POLL_PRI \<noteq> 0 then SLIRP_POLL_IN else 0))) [0..<32]"
  by code_simp

text \<open>
  C7. For every engine flag value built from IN, OUT, PRI, ERR and HUP, translating it to
  host flags and back gives the same value on a POSIX host. On a Windows host the result
  keeps IN and OUT, has IN also when PRI was set, and has neither PRI, ERR nor HUP.
\<close>

theorem poll_event_roundtrip:
  assumes "iEvents AND SLIRP_POLL_ALL = iEvents"
  shows "drvNAT_PollEventHostToSlirp HOST_POSIX
           (drvNAT_PollEventSlirpToHost HOST_POSIX iEvents) = iEvents
       \<and> drvNAT_PollEventHostToSlirp HOST_WINDOWS
           (drvNAT_PollEventSlirpToHost HOST_WINDOWS iEvents) =
         ((iEvents AND (SLIRP_POLL_IN OR SLIRP_POLL_OUT)) OR
          (if iEvents AND SLIRP_POLL_PRI \<noteq> 0 then SLIRP_POLL_IN else 0))"
proof -
  have mem: "unat iEvents \<in> set [0..<32]"
    using assms by (rule slirp_flags_small)
  have "drvNAT_PollEventHostToSlirp HOST_POSIX
          (drvNAT_PollEventSlirpToHost HOST_POSIX (of_nat (unat iEvents))) =
        of_nat (unat iEvents)"
    using poll_roundtrip_posix_table mem unfolding list_all_iff by blast
  moreover have "drvNAT_PollEventHostToSlirp HOST_WINDOWS
          (drvNAT_PollEventSlirpToHost HOST_WINDOWS (of_nat (unat iEvents))) =
        ((of_nat (unat iEvents) AND (SLIRP_POLL_IN OR SLIRP_POLL_OUT)) OR
         (if of_nat (unat iEvents) AND SLIRP_POLL_PRI \<noteq> 0 then SLIRP_POLL_IN else 0))"
    using poll_roundtrip_windows_table mem unfolding list_all_iff by blast
  ultimately show ?thesis
    by simp
qed

theorem poll_event_roundtrip_witness:
  "drvNAT_PollEventHostToSlirp HOST_POSIX
     (drvNAT_PollEventSlirpToHost HOST_POSIX 0x1F) = 0x1F
   \<and> drvNAT_PollEventHostToSlirp HOST_WINDOWS
     (drvNAT_PollEventSlirpToHost HOST_WINDOWS 0x1F) = 0x03
   \<and> drvNAT_PollEventHostToSlirp HOST_WINDOWS
     (drvNAT_PollEventSlirpToHost HOST_WINDOWS SLIRP_POLL_PRI) = SLIRP_POLL_IN
   \<and> drvNAT_PollEventHostToSlirp HOST_WINDOWS
     (drvNAT_PollEventSlirpToHost HOST_WINDOWS (SLIRP_POLL_ERR OR SLIRP_POLL_HUP)) = 0"
  using poll_event_roundtrip [of "0x1F"] poll_event_roundtrip [of SLIRP_POLL_PRI]
    poll_event_roundtrip [of "SLIRP_POLL_ERR OR SLIRP_POLL_HUP"]
  by (simp add: slirp_poll_defs)

subsection \<open>Memory and the sample instances\<close>

lemma sample_running_eval:
  "sample_running = DRVNAT_zero\<lparr>enmLinkState := PDMNETWORKLINKSTATE_UP,
      enmLinkStateWant := PDMNETWORKLINKSTATE_UP,
      pSlirpThread_enmState := PDMTHREADSTATE_RUNNING\<rparr>"
  by (simp add: sample_running_def drvNATConstruct_def sample_env_def DRVNAT_zero_def Let_def)

lemma RTMemFree_Some: "RTMemFree (Some a) s = s\<lparr>memFreed := memFreed s @ [a]\<rparr>"
  by (simp add: RTMemFree_def)

lemma RTMemAlloc_Some: "RTMemAlloc (Some a) s = s\<lparr>memAllocated := memAllocated s @ [a]\<rparr>"
  by (simp add: RTMemAlloc_def)


lemma FreeSgBuf_frees:
  assumes "sg_wellformed (snd pSgBuf)"
  shows "drvNATFreeSgBuf pThis pSgBuf = pThis\<lparr>memFreed := memFreed pThis @ sg_blocks pSgBuf\<rparr>"
proof (cases "pvAllocator (snd pSgBuf)")
  case None
  then obtain g m where "pvUser (snd pSgBuf) = Some g" "aSegs0_pvSeg (snd pSgBuf) = Some m"
    using assms by (auto simp: sg_wellformed_def split: option.splits)
  with None show ?thesis
    by (simp add: sg_blocks_def drvNATFreeSgBuf_def RTMemFree_Some)
next
  case (Some m)
  then have "pvUser (snd pSgBuf) = None" "aSegs0_pvSeg (snd pSgBuf) = Some m"
    using assms by (auto simp: sg_wellformed_def)
  with Some show ?thesis
    by (simp add: sg_blocks_def drvNATFreeSgBuf_def RTMemFree_Some)
qed

lemma notify_fields:
  "memFreed (drvNATNotifyNATThread rc s) = memFreed s"
  "memAllocated (drvNATNotifyNATThread rc s) = memAllocated s"
  "hSlirpReqQueue (drvNATNotifyNATThread rc s) = hSlirpReqQueue s"
  "hRecvReqQueue (drvNATNotifyNATThread rc s) = hRecvReqQueue s"
  "GuestIP (drvNATNotifyNATThread rc s) = GuestIP s"
  "cPkts (drvNATNotifyNATThread rc s) = cPkts s"
  "DevAccessLock (drvNATNotifyNATThread rc s) = DevAccessLock s"
  "hPipeRead (drvNATNotifyNATThread rc s) = hPipeRead s"
  "hPipeWrite (drvNATNotifyNATThread rc s) = hPipeWrite s + (if RT_SUCCESS rc then 1 else 0)"
  "cbWakeupNotifs (drvNATNotifyNATThread rc s) = cbWakeupNotifs s + (if RT_SUCCESS rc then 1 else 0)"
  by (simp_all add: drvNATNotifyNATThread_def RTPipeWrite1_def Let_def)

subsection \<open>The send operation\<close>

lemma sendBuf_not_running:
  assumes "sg_wellformed (snd pSgBuf)" "pSlirpThread_enmState pThis \<noteq> PDMTHREADSTATE_RUNNING"
  shows "drvNATNetworkUp_SendBuf pThis pSgBuf rcQueue rcPipe =
           (VERR_NET_DOWN, pThis\<lparr>memFreed := memFreed pThis @ sg_blocks pSgBuf\<rparr>)"
  using assms by (simp add: drvNATNetworkUp_SendBuf_def FreeSgBuf_frees)

lemma sendBuf_refused:
  assumes "sg_wellformed (snd pSgBuf)" "pSlirpThread_enmState pThis = PDMTHREADSTATE_RUNNING"
    "\<not> RT_SUCCESS rcQueue"
  shows "drvNATNetworkUp_SendBuf pThis pSgBuf rcQueue rcPipe =
           (VERR_NET_NO_BUFFER_SPACE, pThis\<lparr>memFreed := memFreed pThis @ sg_blocks pSgBuf\<rparr>)"
  using assms
  by (simp add: drvNATNetworkUp_SendBuf_def FreeSgBuf_frees RTReqQueueCallEx_NoWait_def Let_def)

lemma sendBuf_queued:
  assumes "pSlirpThread_enmState pThis = PDMTHREADSTATE_RUNNING" "RT_SUCCESS rcQueue"
  shows "drvNATNetworkUp_SendBuf pThis pSgBuf rcQueue rcPipe =
           (VINF_SUCCESS,
            drvNATNotifyNATThread rcPipe
              (pThis\<lparr>hSlirpReqQueue := hSlirpReqQueue pThis @ [ReqSendWorker pSgBuf]\<rparr>))"
  using assms
  by (simp add: drvNATNetworkUp_SendBuf_def RTReqQueueCallEx_NoWait_def Let_def)

text \<open>
  C1 (as amended). For every buffer of one of the two conventions submitted through
  \<open>drvNATNetworkUp_SendBuf\<close>: the call fails with \<open>VERR_NET_DOWN\<close> when the NAT thread is
  not running, whatever the link state; it fails with \<open>VERR_NET_NO_BUFFER_SPACE\<close> when the
  thread runs and the engine queue refuses the request; on both failures each block of the
  buffer (segment, GSO copy, structure) is given back once, nothing is parked and the pipe is
  not written. Otherwise it succeeds: \<open>drvNATSendWorker\<close> is parked behind the pending
  requests, nothing is given back yet, and the wakeup channel is poked (one byte and one count
  when the pipe write succeeds).
\<close>

theorem sendBuf_outcomes:
  assumes wf: "sg_wellformed (snd pSgBuf)"
    and r: "drvNATNetworkUp_SendBuf pThis pSgBuf rcQueue rcPipe = (rc, s')"
  shows "(pSlirpThread_enmState pThis \<noteq> PDMTHREADSTATE_RUNNING \<longrightarrow> rc = VERR_NET_DOWN)
       \<and> (pSlirpThread_enmState pThis = PDMTHREADSTATE_RUNNING \<and> \<not> RT_SUCCESS rcQueue
            \<longrightarrow> rc = VERR_NET_NO_BUFFER_SPACE)
       \<and> (pSlirpThread_enmState pThis = PDMTHREADSTATE_RUNNING \<and> RT_SUCCESS rcQueue
            \<longrightarrow> rc = VINF_SUCCESS)
       \<and> (rc \<noteq> VINF_SUCCESS \<longrightarrow>
            memFreed s' = memFreed pThis @ sg_blocks pSgBuf
            \<and> hSlirpReqQueue s' = hSlirpReqQueue pThis
            \<and> hPipeWrite s' = hPipeWrite pThis)
       \<and> (rc = VINF_SUCCESS \<longrightarrow>
            memFreed s' = memFreed pThis
            \<and> hSlirpReqQueue s' = hSlirpReqQueue pThis @ [ReqSendWorker pSgBuf]
            \<and> hPipeWrite s' = hPipeWrite pThis + (if RT_SUCCESS rcPipe then 1 else 0)
            \<and> cbWakeupNotifs s' = cbWakeupNotifs pThis + (if RT_SUCCESS rcPipe then 1 else 0))"
proof (cases "pSlirpThread_enmState pThis = PDMTHREADSTATE_RUNNING")
  case False
  from sendBuf_not_running [OF wf False, of rcQueue rcPipe] r
  have "rc = VERR_NET_DOWN" "s' = pThis\<lparr>memFreed := memFreed pThis @ sg_blocks pSgBuf\<rparr>"
    by simp_all
  with False show ?thesis by simp
next
  case True
  show ?thesis
  proof (cases "RT_SUCCESS rcQueue")
    case False
    from sendBuf_refused [OF wf True False, of rcPipe] r
    have "rc = VERR_NET_NO_BUFFER_SPACE"
      "s' = pThis\<lparr>memFreed := memFreed pThis @ sg_blocks pSgBuf\<rparr>"
      by simp_all
    with True False show ?thesis by simp
  next
    case ok: True
    from sendBuf_queued [OF True ok, of pSgBuf rcPipe] r
    have "rc = VINF_SUCCESS"
      "s' = drvNATNotifyNATThread rcPipe
              (pThis\<lparr>hSlirpReqQueue := hSlirpReqQueue pThis @ [ReqSendWorker pSgBuf]\<rparr>)"
      by simp_all
    with True ok show ?thesis by (simp add: notify_fields)
  qed
qed

lemma sample_frame_wf: "sg_wellformed (snd sample_frame)"
  by (simp add: sample_frame_def sg_wellformed_def AllocBuf_init_def PDMSCATTERGATHER_zero_def)

lemma sample_frame_blocks: "sg_blocks sample_frame = [9, 7]"
  by (simp add: sample_frame_def sg_blocks_def AllocBuf_init_def PDMSCATTERGATHER_zero_def)

theorem sendBuf_outcomes_witness:
  "sg_wellformed (snd sample_frame)
   \<and> fst (drvNATNetworkUp_SendBuf sample_running sample_frame VERR_NO_MEMORY VINF_SUCCESS)
       = VERR_NET_NO_BUFFER_SPACE
   \<and> memFreed (snd (drvNATNetworkUp_SendBuf sample_running sample_frame VERR_NO_MEMORY VINF_SUCCESS))
       = [9, 7]
   \<and> fst (drvNATNetworkUp_SendBuf (sample_running\<lparr>pSlirpThread_enmState := PDMTHREADSTATE_SUSPENDED\<rparr>)
            sample_frame VINF_SUCCESS VINF_SUCCESS) = VERR_NET_DOWN
   \<and> hSlirpReqQueue (snd (drvNATNetworkUp_SendBuf sample_running sample_frame VINF_SUCCESS VINF_SUCCESS))
       = [ReqSendWorker sample_frame]"
  using sendBuf_outcomes [OF sample_frame_wf,
      of sample_running VERR_NO_MEMORY VINF_SUCCESS
        "fst (drvNATNetworkUp_SendBuf sample_running sample_frame VERR_NO_MEMORY VINF_SUCCESS)"
        "snd (drvNATNetworkUp_SendBuf sample_running sample_frame VERR_NO_MEMORY VINF_SUCCESS)"]
    sendBuf_outcomes [OF sample_frame_wf,
      of "sample_running\<lparr>pSlirpThread_enmState := PDMTHREADSTATE_SUSPENDED\<rparr>" VINF_SUCCESS VINF_SUCCESS
        "fst (drvNATNetworkUp_SendBuf (sample_running\<lparr>pSlirpThread_enmState := PDMTHREADSTATE_SUSPENDED\<rparr>)
            sample_frame VINF_SUCCESS VINF_SUCCESS)"
        "snd (drvNATNetworkUp_SendBuf (sample_running\<lparr>pSlirpThread_enmState := PDMTHREADSTATE_SUSPENDED\<rparr>)
            sample_frame VINF_SUCCESS VINF_SUCCESS)"]
    sendBuf_outcomes [OF sample_frame_wf,
      of sample_running VINF_SUCCESS VINF_SUCCESS
        "fst (drvNATNetworkUp_SendBuf sample_running sample_frame VINF_SUCCESS VINF_SUCCESS)"
        "snd (drvNATNetworkUp_SendBuf sample_running sample_frame VINF_SUCCESS VINF_SUCCESS)"]
  by (simp add: sample_frame_wf sample_frame_blocks sample_running_eval DRVNAT_zero_def)

text \<open>
  With the link down and the NAT thread running the call does not fail: the frame is parked
  (the worker drops it later).
\<close>

theorem sendBuf_link_down_counterexample:
  "enmLinkState (sample_running\<lparr>enmLinkState := PDMNETWORKLINKSTATE_DOWN\<rparr>) \<noteq> PDMNETWORKLINKSTATE_UP
   \<and> fst (drvNATNetworkUp_SendBuf (sample_running\<lparr>enmLinkState := PDMNETWORKLINKSTATE_DOWN\<rparr>)
            sample_frame VINF_SUCCESS VINF_SUCCESS) = VINF_SUCCESS
   \<and> memFreed (snd (drvNATNetworkUp_SendBuf (sample_running\<lparr>enmLinkState := PDMNETWORKLINKSTATE_DOWN\<rparr>)
            sample_frame VINF_SUCCESS VINF_SUCCESS)) = []"
  by (simp add: sample_running_eval DRVNAT_zero_def sendBuf_queued notify_fields)

subsection \<open>Buffer allocation\<close>






















lemma sample_running_mem: "memAllocated sample_running = []" "memFreed sample_running = []"
  by (simp_all add: sample_running_eval DRVNAT_zero_def)




subsection \<open>The engine configuration\<close>

lemma byte_mask_low: "(0xFF :: 32 word) = mask 8" by (simp add: mask_eq_exp_minus_1)
lemma byte_mask_second: "(0xFF00 :: 32 word) = push_bit 8 (mask 8)" by (simp add: mask_eq_exp_minus_1 push_bit_eq_mult)

lemma RT_BYTE2_swap: "RT_BYTE2 (RTNetIPv4AddrHEToInAddr u) = octet_B u"
  unfolding RT_BYTE2_def RTNetIPv4AddrHEToInAddr_def octet_B_def byte_mask_low byte_mask_second
  by (rule bit_eqI) (auto simp: bit_simps)

lemma RT_BYTE3_swap: "RT_BYTE3 (RTNetIPv4AddrHEToInAddr u) = octet_C u"
  unfolding RT_BYTE3_def RTNetIPv4AddrHEToInAddr_def octet_C_def byte_mask_low byte_mask_second
  by (rule bit_eqI) (auto simp: bit_simps)

lemma octet_or_low:
  assumes "k AND mask 8 = k"
  shows "octet_B (u OR k) = octet_B u" "octet_C (u OR k) = octet_C u"
proof -
  have "\<not> bit k n" if "8 \<le> n" for n
  proof -
    have "bit k n = bit (k AND mask 8) n" using assms by simp
    then show ?thesis using that by (simp add: bit_simps)
  qed
  then show "octet_B (u OR k) = octet_B u" "octet_C (u OR k) = octet_C u"
    unfolding octet_B_def octet_C_def
    by - (rule bit_eqI, auto simp: bit_simps)+
qed


lemma in6_update:
  "(in6_fd17_625c_f037_0 l)[6 := b, 7 := c] =
     [0xfd, 0x17, 0x62, 0x5c, 0xf0, 0x37, b, c, 0, 0, 0, 0, 0, 0, 0, l]"
  by (simp add: in6_fd17_625c_f037_0_def)

lemma slirpCfg_fields:
  "vhost (drvNATConstruct_slirpCfg Network Netmask MTU) = RTNetIPv4AddrHEToInAddr (Network OR 2)"
  "vdhcp_start (drvNATConstruct_slirpCfg Network Netmask MTU) = RTNetIPv4AddrHEToInAddr (Network OR 15)"
  "vnameserver (drvNATConstruct_slirpCfg Network Netmask MTU) = RTNetIPv4AddrHEToInAddr (Network OR 3)"
  "vprefix_len (drvNATConstruct_slirpCfg Network Netmask MTU) = 64"
  "vprefix_addr6 (drvNATConstruct_slirpCfg Network Netmask MTU) =
     [0xfd, 0x17, 0x62, 0x5c, 0xf0, 0x37, octet_B Network, octet_C Network,
      0, 0, 0, 0, 0, 0, 0, 0]"
  "vhost6 (drvNATConstruct_slirpCfg Network Netmask MTU) =
     [0xfd, 0x17, 0x62, 0x5c, 0xf0, 0x37, octet_B Network, octet_C Network,
      0, 0, 0, 0, 0, 0, 0, 2]"
  "vnameserver6 (drvNATConstruct_slirpCfg Network Netmask MTU) =
     [0xfd, 0x17, 0x62, 0x5c, 0xf0, 0x37, octet_B Network, octet_C Network,
      0, 0, 0, 0, 0, 0, 0, 3]"
proof -
  have k: "(2 :: 32 word) AND mask 8 = 2" "(3 :: 32 word) AND mask 8 = 3"
    by (simp_all add: mask_eq_exp_minus_1)
  note o = octet_or_low [OF k(1)] octet_or_low [OF k(2)]
  show
    "vhost (drvNATConstruct_slirpCfg Network Netmask MTU) = RTNetIPv4AddrHEToInAddr (Network OR 2)"
    "vdhcp_start (drvNATConstruct_slirpCfg Network Netmask MTU) = RTNetIPv4AddrHEToInAddr (Network OR 15)"
    "vnameserver (drvNATConstruct_slirpCfg Network Netmask MTU) = RTNetIPv4AddrHEToInAddr (Network OR 3)"
    "vprefix_len (drvNATConstruct_slirpCfg Network Netmask MTU) = 64"
    by (simp_all add: drvNATConstruct_slirpCfg_def Let_def)
  show "vprefix_addr6 (drvNATConstruct_slirpCfg Network Netmask MTU) =
     [0xfd, 0x17, 0x62, 0x5c, 0xf0, 0x37, octet_B Network, octet_C Network,
      0, 0, 0, 0, 0, 0, 0, 0]"
    by (simp add: drvNATConstruct_slirpCfg_def Let_def in6_update RT_BYTE2_swap RT_BYTE3_swap o)
  show "vhost6 (drvNATConstruct_slirpCfg Network Netmask MTU) =
     [0xfd, 0x17, 0x62, 0x5c, 0xf0, 0x37, octet_B Network, octet_C Network,
      0, 0, 0, 0, 0, 0, 0, 2]"
    by (simp add: drvNATConstruct_slirpCfg_def Let_def in6_update RT_BYTE2_swap RT_BYTE3_swap o)
  show "vnameserver6 (drvNATConstruct_slirpCfg Network Netmask MTU) =
     [0xfd, 0x17, 0x62, 0x5c, 0xf0, 0x37, octet_B Network, octet_C Network,
      0, 0, 0, 0, 0, 0, 0, 3]"
    by (simp add: drvNATConstruct_slirpCfg_def Let_def in6_update RT_BYTE2_swap RT_BYTE3_swap o)
qed

lemma construct_cfg:
  assumes "drvNATConstruct env pThis = (rc, Some cfg, s')"
    and "envNetwork env = Some szNetwork"
    and "envRTCidrStrToIPv4 env szNetwork = (rcCidr, Network, Netmask)"
  shows "cfg = drvNATConstruct_slirpCfg Network Netmask (envMTU env)"
proof (cases "envAbove env")
  case False
  with assms(1) show ?thesis by (simp add: drvNATConstruct_def Let_def)
next
  case above: True
  show ?thesis
  proof (cases "RT_SUCCESS rcCidr")
    case False
    with assms above show ?thesis by (simp add: drvNATConstruct_def Let_def)
  next
    case ok: True
    show ?thesis
    proof (cases "envSlirpNew env")
      case False
      with assms above ok show ?thesis by (simp add: drvNATConstruct_def Let_def)
    next
      case True
      with assms above ok show ?thesis
        by (cases "RT_SUCCESS (envSetup env)") (simp_all add: drvNATConstruct_def Let_def)
    qed
  qed
qed

text \<open>
  C9 (as amended). For every \<open>Network\<close> the constructor has parsed, the engine
  configuration has \<open>vhost = Network | 2\<close>, \<open>vdhcp_start = Network | 15\<close> and
  \<open>vnameserver = Network | 3\<close> (each turned to network byte order); the IPv6 prefix has
  length 64 and is \<open>fd17:625c:f037:XXYY::\<close>, where \<open>XX\<close> and \<open>YY\<close> are the second and
  the third octet of the IPv4 host address (those of \<open>Network\<close>): it is not one fixed
  prefix. Bytes 6 and 7 of the IPv6 host and name server addresses are the same two octets,
  and the addresses end in 2 and 3.
\<close>

theorem construct_addressing:
  assumes "drvNATConstruct env pThis = (rc, Some cfg, s')"
    and "envNetwork env = Some szNetwork"
    and "envRTCidrStrToIPv4 env szNetwork = (rcCidr, Network, Netmask)"
  shows "vhost cfg = RTNetIPv4AddrHEToInAddr (Network OR 2)
       \<and> vdhcp_start cfg = RTNetIPv4AddrHEToInAddr (Network OR 15)
       \<and> vnameserver cfg = RTNetIPv4AddrHEToInAddr (Network OR 3)
       \<and> vprefix_len cfg = 64
       \<and> vprefix_addr6 cfg =
           [0xfd, 0x17, 0x62, 0x5c, 0xf0, 0x37, octet_B Network, octet_C Network,
            0, 0, 0, 0, 0, 0, 0, 0]
       \<and> vhost6 cfg =
           [0xfd, 0x17, 0x62, 0x5c, 0xf0, 0x37, octet_B Network, octet_C Network,
            0, 0, 0, 0, 0, 0, 0, 2]
       \<and> vnameserver6 cfg =
           [0xfd, 0x17, 0x62, 0x5c, 0xf0, 0x37, octet_B Network, octet_C Network,
            0, 0, 0, 0, 0, 0, 0, 3]
       \<and> RT_BYTE2 (vhost cfg) = octet_B Network \<and> RT_BYTE3 (vhost cfg) = octet_C Network
       \<and> RT_BYTE2 (vnameserver cfg) = octet_B Network
       \<and> RT_BYTE3 (vnameserver cfg) = octet_C Network"
proof -
  have k: "(2 :: 32 word) AND mask 8 = 2" "(3 :: 32 word) AND mask 8 = 3"
    by (simp_all add: mask_eq_exp_minus_1)
  note o = octet_or_low [OF k(1)] octet_or_low [OF k(2)]
  have "cfg = drvNATConstruct_slirpCfg Network Netmask (envMTU env)"
    using assms by (rule construct_cfg)
  then show ?thesis
    by (simp only: slirpCfg_fields RT_BYTE2_swap RT_BYTE3_swap o simp_thms)
qed

lemma sample_construct:
  "drvNATConstruct sample_env DRVNAT_zero =
     (VINF_SUCCESS, Some (drvNATConstruct_slirpCfg 0x0A000200 0xFFFFFF00 1500),
      snd (snd (drvNATConstruct sample_env DRVNAT_zero)))"
  by (simp add: drvNATConstruct_def sample_env_def Let_def)

theorem construct_addressing_witness:
  "map_option vhost (fst (snd (drvNATConstruct sample_env DRVNAT_zero))) = Some 0x0202000A
   \<and> map_option vdhcp_start (fst (snd (drvNATConstruct sample_env DRVNAT_zero))) = Some 0x0F02000A
   \<and> map_option vnameserver (fst (snd (drvNATConstruct sample_env DRVNAT_zero))) = Some 0x0302000A
   \<and> map_option vhost6 (fst (snd (drvNATConstruct sample_env DRVNAT_zero))) =
       Some [0xfd, 0x17, 0x62, 0x5c, 0xf0, 0x37, 0, 2, 0, 0, 0, 0, 0, 0, 0, 2]"
proof -
  have n: "envNetwork sample_env = Some ''10.0.2.0/24''"
    and c: "envRTCidrStrToIPv4 sample_env ''10.0.2.0/24'' = (VINF_SUCCESS, 0x0A000200, 0xFFFFFF00)"
    by (simp_all add: sample_env_def)
  from construct_addressing [OF sample_construct n c] show ?thesis
    by (subst (1 2 3 4) sample_construct)
      (simp add: RTNetIPv4AddrHEToInAddr_def octet_B_def octet_C_def)
qed

text \<open>
  For the network 10.0.2.0/24 the prefix handed to the engine is \<open>fd17:625c:f037:2::\<close>,
  not \<open>fd17:625c:f037:0::\<close>.
\<close>

theorem construct_prefix_counterexample:
  "map_option vprefix_addr6 (fst (snd (drvNATConstruct sample_env DRVNAT_zero))) =
     Some [0xfd, 0x17, 0x62, 0x5c, 0xf0, 0x37, 0, 2, 0, 0, 0, 0, 0, 0, 0, 0]
   \<and> map_option vprefix_addr6 (fst (snd (drvNATConstruct sample_env DRVNAT_zero))) \<noteq>
     Some (in6_fd17_625c_f037_0 0)"
  by (subst (1 2) sample_construct)
    (simp add: slirpCfg_fields octet_B_def octet_C_def in6_fd17_625c_f037_0_def)

subsection \<open>What the operations leave alone\<close>

lemma GuestIP_prims [simp]:
  "GuestIP (RTMemAlloc a s) = GuestIP s"
  "GuestIP (RTMemFree a s) = GuestIP s"
  "GuestIP (drvNATNotifyNATThread rc s) = GuestIP s"
  "GuestIP (drvNATAsyncIoThread_drain revents s) = GuestIP s"
  "GuestIP (slirp_call c s) = GuestIP s"
  "GuestIP (drvNATRecvWakeup s) = GuestIP s"
  "GuestIP (RTCritSectEnter_DevAccessLock s) = GuestIP s"
  "GuestIP (RTCritSectLeave_DevAccessLock s) = GuestIP s"
  "GuestIP (pfnReceive pBuf cb s) = GuestIP s"
  "GuestIP (drvNATNotifyLinkChangedWorker s l) = GuestIP s"
  "GuestIP (RTMemFree_timer p s) = GuestIP s"
  by (simp_all add: RTMemAlloc_def RTMemFree_def drvNATNotifyNATThread_def RTPipeWrite1_def
      drvNATAsyncIoThread_drain_def RTPipeRead_def slirp_call_def drvNATRecvWakeup_def
      RTCritSectEnter_DevAccessLock_def RTCritSectLeave_DevAccessLock_def pfnReceive_def
      drvNATNotifyLinkChangedWorker_def RTMemFree_timer_def Let_def split: option.split)

lemma wakeup_inv_updates [simp]:
  "wakeup_inv (s\<lparr>enmLinkState := l\<rparr>) = wakeup_inv s"
  "wakeup_inv (s\<lparr>enmLinkStateWant := l\<rparr>) = wakeup_inv s"
  "wakeup_inv (s\<lparr>pSlirpThread_enmState := t\<rparr>) = wakeup_inv s"
  "wakeup_inv (s\<lparr>hSlirpReqQueue := q\<rparr>) = wakeup_inv s"
  "wakeup_inv (s\<lparr>hRecvReqQueue := q\<rparr>) = wakeup_inv s"
  "wakeup_inv (s\<lparr>EventRecv := e\<rparr>) = wakeup_inv s"
  "wakeup_inv (s\<lparr>DevAccessLock := n\<rparr>) = wakeup_inv s"
  "wakeup_inv (s\<lparr>cPkts := c\<rparr>) = wakeup_inv s"
  "wakeup_inv (s\<lparr>pTimerHead := h\<rparr>) = wakeup_inv s"
  "wakeup_inv (s\<lparr>timerMem := m\<rparr>) = wakeup_inv s"
  "wakeup_inv (s\<lparr>memAllocated := as\<rparr>) = wakeup_inv s"
  "wakeup_inv (s\<lparr>memFreed := fs\<rparr>) = wakeup_inv s"
  "wakeup_inv (s\<lparr>slirpCalls := cs\<rparr>) = wakeup_inv s"
  "wakeup_inv (s\<lparr>aboveNetReceived := rs\<rparr>) = wakeup_inv s"
  by (simp_all add: wakeup_inv_def)

lemma wakeup_inv_prims [simp]:
  "wakeup_inv (RTMemAlloc a s) = wakeup_inv s"
  "wakeup_inv (RTMemFree a s) = wakeup_inv s"
  "wakeup_inv (slirp_call c s) = wakeup_inv s"
  "wakeup_inv (drvNATRecvWakeup s) = wakeup_inv s"
  "wakeup_inv (RTCritSectEnter_DevAccessLock s) = wakeup_inv s"
  "wakeup_inv (RTCritSectLeave_DevAccessLock s) = wakeup_inv s"
  "wakeup_inv (pfnReceive pBuf cb s) = wakeup_inv s"
  "wakeup_inv (drvNATNotifyLinkChangedWorker s l) = wakeup_inv s"
  "wakeup_inv (RTMemFree_timer p s) = wakeup_inv s"
  by (simp_all add: RTMemAlloc_def RTMemFree_def slirp_call_def drvNATRecvWakeup_def
      RTCritSectEnter_DevAccessLock_def RTCritSectLeave_DevAccessLock_def pfnReceive_def
      drvNATNotifyLinkChangedWorker_def RTMemFree_timer_def split: option.split)


lemma wakeup_inv_notify: "wakeup_inv s \<Longrightarrow> wakeup_inv (drvNATNotifyNATThread rc s)"
  by (simp add: wakeup_inv_def drvNATNotifyNATThread_def RTPipeWrite1_def Let_def Suc_diff_le)

text \<open>The notify of the Windows compilation is the one of the POSIX compilation.\<close>

lemma notify_win_as_posix:
  "drvNATNotifyNATThread_win fFails s =
     drvNATNotifyNATThread (if fFails then VERR_OTHER else VINF_SUCCESS) s"
  by (simp add: drvNATNotifyNATThread_win_def send_def SOCKET_ERROR_def
      drvNATNotifyNATThread_def RTPipeWrite1_def Let_def)

lemma GuestIP_win [simp]:
  "GuestIP (drvNATNotifyNATThread_win fFails s) = GuestIP s"
  "GuestIP (drvNATAsyncIoThread_drain_win revents outcome s) = GuestIP s"
  by (simp_all add: notify_win_as_posix drvNATAsyncIoThread_drain_win_def recv_def Let_def
      split: option.split)

lemma wakeup_inv_notify_win: "wakeup_inv s \<Longrightarrow> wakeup_inv (drvNATNotifyNATThread_win fFails s)"
  by (simp add: notify_win_as_posix wakeup_inv_notify)

lemma drain_win_taken:
  assumes "revents AND POLLIN HOST_WINDOWS \<noteq> 0"
  shows "drvNATAsyncIoThread_drain_win revents (Some n) s =
     s\<lparr>hPipeRead := hPipeRead s
          + min n (min (min (unat (cbWakeupNotifs s)) 1024) (hPipeWrite s - hPipeRead s)),
       cbWakeupNotifs := cbWakeupNotifs s
          - of_nat (min n (min (min (unat (cbWakeupNotifs s)) 1024)
                             (hPipeWrite s - hPipeRead s)))\<rparr>"
  using assms by (simp add: drvNATAsyncIoThread_drain_win_def recv_def Let_def)

lemma wakeup_inv_drain_win:
  assumes "wakeup_inv s" and "recv_succeeded (OpDrainWin revents outcome)"
  shows "wakeup_inv (drvNATAsyncIoThread_drain_win revents outcome s)"
proof (cases "revents AND POLLIN HOST_WINDOWS \<noteq> 0")
  case False
  with assms(1) show ?thesis
    by (simp add: drvNATAsyncIoThread_drain_win_def)
next
  case True
  with assms(2) obtain m where m: "outcome = Some m"
    by (cases outcome) simp_all
  define d where "d = hPipeWrite s - hPipeRead s"
  define n where "n = min m (min (min (unat (cbWakeupNotifs s)) 1024) d)"
  have le: "n \<le> d"
    by (simp add: n_def)
  have c: "cbWakeupNotifs s = of_nat d"
    and r: "hPipeRead s \<le> hPipeWrite s"
    using assms(1) by (simp_all add: wakeup_inv_def d_def)
  have eq: "drvNATAsyncIoThread_drain_win revents outcome s =
      s\<lparr>hPipeRead := hPipeRead s + n, cbWakeupNotifs := cbWakeupNotifs s - of_nat n\<rparr>"
    unfolding m drain_win_taken [OF True] n_def d_def by (rule refl)
  have "hPipeWrite s - (hPipeRead s + n) = d - n"
    by (simp add: d_def)
  moreover have "(of_nat (d - n) :: 64 word) = of_nat d - of_nat n"
    using le by (rule of_nat_diff)
  moreover have "hPipeRead s + n \<le> hPipeWrite s"
    using le r by (simp add: d_def)
  ultimately show ?thesis
    unfolding eq wakeup_inv_def by (simp add: c)
qed

lemma wakeup_inv_drain:
  assumes "wakeup_inv s"
  shows "wakeup_inv (drvNATAsyncIoThread_drain revents s)"
proof (cases "revents AND (POLLRDNORM HOST_POSIX OR POLLPRI HOST_POSIX OR POLLRDBAND HOST_POSIX) \<noteq> 0")
  case False
  with assms show ?thesis
    by (simp add: drvNATAsyncIoThread_drain_def)
next
  case True
  define d where "d = hPipeWrite s - hPipeRead s"
  define n where "n = min (min (unat (cbWakeupNotifs s)) 1024) d"
  have le: "n \<le> d"
    by (simp add: n_def)
  have c: "cbWakeupNotifs s = of_nat d"
    and r: "hPipeRead s \<le> hPipeWrite s"
    using assms by (simp_all add: wakeup_inv_def d_def)
  have eq: "drvNATAsyncIoThread_drain revents s =
      s\<lparr>hPipeRead := hPipeRead s + n, cbWakeupNotifs := cbWakeupNotifs s - of_nat n\<rparr>"
    using True by (simp add: drvNATAsyncIoThread_drain_def RTPipeRead_def Let_def n_def d_def)
  have "hPipeWrite s - (hPipeRead s + n) = d - n"
    by (simp add: d_def)
  moreover have "(of_nat (d - n) :: 64 word) = of_nat d - of_nat n"
    using le by (rule of_nat_diff)
  moreover have "hPipeRead s + n \<le> hPipeWrite s"
    using le r by (simp add: d_def)
  ultimately show ?thesis
    unfolding eq wakeup_inv_def by (simp add: c)
qed

lemma FreeSgBuf_keeps [simp]:
  "GuestIP (drvNATFreeSgBuf s b) = GuestIP s"
  "wakeup_inv (drvNATFreeSgBuf s b) = wakeup_inv s"
  by (simp_all add: drvNATFreeSgBuf_def Let_def split: option.split)

lemma AllocBuf_keeps [simp]:
  "GuestIP (snd (snd (drvNATNetworkUp_AllocBuf s cbMin pGso aSg aSeg aGso))) = GuestIP s"
  "wakeup_inv (snd (snd (drvNATNetworkUp_AllocBuf s cbMin pGso aSg aSeg aGso))) = wakeup_inv s"
  by (simp_all add: drvNATNetworkUp_AllocBuf_def Let_def split: option.split)

lemma SendBuf_keeps:
  "GuestIP (snd (drvNATNetworkUp_SendBuf s b rcQueue rcPipe)) = GuestIP s"
  "wakeup_inv s \<Longrightarrow> wakeup_inv (snd (drvNATNetworkUp_SendBuf s b rcQueue rcPipe))"
  by (simp_all add: drvNATNetworkUp_SendBuf_def Let_def wakeup_inv_notify)

lemma NotifyLinkChanged_keeps:
  "GuestIP (drvNATNetworkUp_NotifyLinkChanged s l rcQueue rcPipe) = GuestIP s"
  "wakeup_inv s \<Longrightarrow> wakeup_inv (drvNATNetworkUp_NotifyLinkChanged s l rcQueue rcPipe)"
  by (simp_all add: drvNATNetworkUp_NotifyLinkChanged_def Let_def wakeup_inv_notify)

lemma ApplyPortForward_keeps [simp]:
  "GuestIP (drvNATNotifyApplyPortForwardCommand f s fRemove fUdp pHostIp hp pGuestIp gp) = GuestIP s"
  "wakeup_inv (drvNATNotifyApplyPortForwardCommand f s fRemove fUdp pHostIp hp pGuestIp gp)
     = wakeup_inv s"
  by (simp_all add: drvNATNotifyApplyPortForwardCommand_def Let_def)

lemma Redirect_keeps:
  "GuestIP (snd (drvNATNetworkNatConfigRedirect f s fRemove fUdp pHostIp hp pGuestIp gp
      rcQueue rcPipe)) = GuestIP s"
  "wakeup_inv s \<Longrightarrow>
   wakeup_inv (snd (drvNATNetworkNatConfigRedirect f s fRemove fUdp pHostIp hp pGuestIp gp
      rcQueue rcPipe))"
  by (simp_all add: drvNATNetworkNatConfigRedirect_def Let_def wakeup_inv_notify)

lemma SendPacketCb_keeps:
  "GuestIP (snd (drvNAT_SendPacketCb s cb aNew rcQueue rcPipe)) = GuestIP s"
  "wakeup_inv s \<Longrightarrow> wakeup_inv (snd (drvNAT_SendPacketCb s cb aNew rcQueue rcPipe))"
  by (simp_all add: drvNAT_SendPacketCb_def Let_def wakeup_inv_notify split: option.split)

lemma RecvWorker_keeps:
  "GuestIP (drvNATRecvWorker s pBuf cb rcWait rcPipe) = GuestIP s"
  "wakeup_inv s \<Longrightarrow> wakeup_inv (drvNATRecvWorker s pBuf cb rcWait rcPipe)"
  by (simp_all add: drvNATRecvWorker_def Let_def wakeup_inv_notify)

lemma segment_keeps [simp]:
  "GuestIP (drvNATSendWorker_segment env gso cbFrame n i s) = GuestIP s"
  "wakeup_inv (drvNATSendWorker_segment env gso cbFrame n i s) = wakeup_inv s"
  by (simp_all add: drvNATSendWorker_segment_def Let_def split: prod.split)

lemma segments_keep [simp]:
  "GuestIP (fold (drvNATSendWorker_segment env gso cbFrame n) is s) = GuestIP s"
  "wakeup_inv (fold (drvNATSendWorker_segment env gso cbFrame n) is s) = wakeup_inv s"
  by (induction "is" arbitrary: s) simp_all

lemma SendWorker_keeps [simp]:
  "GuestIP (drvNATSendWorker env s b) = GuestIP s"
  "wakeup_inv (drvNATSendWorker env s b) = wakeup_inv s"
  by (simp_all add: drvNATSendWorker_def Let_def split: option.split)

lemma entry_keeps [simp]:
  "GuestIP (drvNATAsyncIoThread_entry s) = GuestIP s"
  "wakeup_inv (drvNATAsyncIoThread_entry s) = wakeup_inv s"
  by (simp_all add: drvNATAsyncIoThread_entry_def)

lemma TimerNew_keeps [simp]:
  "GuestIP (snd (drvNAT_TimerNewCb s cb cb_opaque aNew)) = GuestIP s"
  "wakeup_inv (snd (drvNAT_TimerNewCb s cb cb_opaque aNew)) = wakeup_inv s"
  by (simp_all add: drvNAT_TimerNewCb_def Let_def split: option.split)

lemma TimerMod_keeps:
  assumes "drvNAT_TimerModCb s pTimer expireTime = Some s'"
  shows "GuestIP s' = GuestIP s" "wakeup_inv s' = wakeup_inv s"
proof -
  obtain p t where "s' = s\<lparr>timerMem := (timerMem s)(p \<mapsto> t)\<rparr>"
    using assms by (auto simp: drvNAT_TimerModCb_def split: option.splits)
  then show "GuestIP s' = GuestIP s" "wakeup_inv s' = wakeup_inv s"
    by simp_all
qed

lemma TimerFree_loop_keeps:
  "drvNAT_TimerFreeCb_loop pTimer pCurrent s = Some s' \<Longrightarrow>
   GuestIP s' = GuestIP s \<and> wakeup_inv s' = wakeup_inv s"
proof (induction pTimer pCurrent s s' rule: drvNAT_TimerFreeCb_loop.raw_induct [rotated 1, consumes 1])
  case (1 loop pTimer pCurrent pThis y)
  show ?case
  proof (cases pCurrent)
    case None
    with 1(2) show ?thesis by simp
  next
    case (Some p)
    show ?thesis
    proof (cases "timerMem pThis p")
      case None
      with Some 1(2) show ?thesis by simp
    next
      case t: (Some t)
      show ?thesis
      proof (cases "pCurrent = pTimer")
        case True
        with Some t 1(2) have "loop pTimer (next_timer t) (RTMemFree_timer p pThis) = Some y"
          by simp
        from 1(1) [OF this] show ?thesis by simp
      next
        case False
        with Some t 1(2) have "loop pTimer (next_timer t) pThis = Some y"
          by simp
        from 1(1) [OF this] show ?thesis .
      qed
    qed
  qed
qed

lemma run_request_keeps:
  "GuestIP (run_request env rcWait rcPipe r s) = GuestIP s"
  "wakeup_inv s \<Longrightarrow> wakeup_inv (run_request env rcWait rcPipe r s)"
  by (cases r; simp add: RecvWorker_keeps)+

lemma exec_keeps:
  assumes "exec env x s = Some s'"
  shows "GuestIP s' = GuestIP s" "recv_succeeded x \<Longrightarrow> wakeup_inv s \<Longrightarrow> wakeup_inv s'"
proof -
  have "GuestIP s' = GuestIP s \<and> (recv_succeeded x \<longrightarrow> wakeup_inv s \<longrightarrow> wakeup_inv s')"
  proof (cases x)
    case (OpDrainWin revents outcome)
    with assms wakeup_inv_drain_win [of s revents outcome] show ?thesis
      by auto
  next
    case (OpSlirpReqProcess rcWait rcPipe)
    with assms show ?thesis
      by (cases "hSlirpReqQueue s") (auto simp: run_request_keeps)
  next
    case (OpRecvReqProcess rcWait rcPipe)
    with assms show ?thesis
      by (cases "hRecvReqQueue s") (auto simp: run_request_keeps)
  next
    case (OpTimerMod pTimer expireTime)
    with assms TimerMod_keeps [of s pTimer expireTime s'] show ?thesis by simp
  next
    case (OpTimerFree pTimer)
    with assms TimerFree_loop_keeps [of pTimer "pTimerHead s" s s'] show ?thesis
      by (simp add: drvNAT_TimerFreeCb_def)
  qed (use assms in \<open>auto simp: SendBuf_keeps NotifyLinkChanged_keeps Redirect_keeps
        SendPacketCb_keeps wakeup_inv_notify wakeup_inv_drain wakeup_inv_notify_win\<close>)
  then show "GuestIP s' = GuestIP s" "recv_succeeded x \<Longrightarrow> wakeup_inv s \<Longrightarrow> wakeup_inv s'"
    by simp_all
qed

lemma run_keeps:
  "run env xs s = Some s' \<Longrightarrow>
   GuestIP s' = GuestIP s
   \<and> (list_all recv_succeeded xs \<longrightarrow> wakeup_inv s \<longrightarrow> wakeup_inv s')"
proof (induction xs arbitrary: s)
  case Nil
  then show ?case by simp
next
  case (Cons x xs)
  then obtain s1 where x: "exec env x s = Some s1" and xs: "run env xs s1 = Some s'"
    by (auto split: option.splits)
  from exec_keeps [OF x] Cons.IH [OF xs] show ?case by simp
qed

subsection \<open>The instance after construction\<close>

lemma construct_keeps_GuestIP:
  "GuestIP (snd (snd (drvNATConstruct cenv pThis))) = GuestIP pThis"
  by (simp add: drvNATConstruct_def Let_def split: option.split prod.split)

lemma construct_wakeup_inv:
  "wakeup_inv (snd (snd (drvNATConstruct cenv DRVNAT_zero)))"
proof -
  have z: "wakeup_inv DRVNAT_zero"
    by (simp add: wakeup_inv_def DRVNAT_zero_def)
  have "hPipeWrite DRVNAT_zero = 0" "hPipeRead DRVNAT_zero = 0" "cbWakeupNotifs DRVNAT_zero = 0"
    by (simp_all add: DRVNAT_zero_def)
  then have "wakeup_inv (DRVNAT_zero\<lparr>cbWakeupNotifs := 0\<rparr>)"
    by (simp add: wakeup_inv_def)
  with z show ?thesis
    by (simp add: drvNATConstruct_def Let_def wakeup_inv_def split: option.split prod.split)
qed

subsection \<open>The wakeup counter\<close>

lemma notify_failed: "\<not> RT_SUCCESS rc \<Longrightarrow> drvNATNotifyNATThread rc s = s"
  by (simp add: drvNATNotifyNATThread_def RTPipeWrite1_def)

lemma drain_not_readable:
  "revents AND (POLLRDNORM HOST_POSIX OR POLLPRI HOST_POSIX OR POLLRDBAND HOST_POSIX) = 0 \<Longrightarrow>
   drvNATAsyncIoThread_drain revents s = s"
  by (simp add: drvNATAsyncIoThread_drain_def)

lemma drain_readable:
  assumes "wakeup_inv s"
    and "revents AND (POLLRDNORM HOST_POSIX OR POLLPRI HOST_POSIX OR POLLRDBAND HOST_POSIX) \<noteq> 0"
  shows "drvNATAsyncIoThread_drain revents s =
     s\<lparr>hPipeRead := hPipeRead s + min 1024 (unat (cbWakeupNotifs s)),
       cbWakeupNotifs := cbWakeupNotifs s - of_nat (min 1024 (unat (cbWakeupNotifs s)))\<rparr>"
proof -
  define d where "d = hPipeWrite s - hPipeRead s"
  have "cbWakeupNotifs s = of_nat d"
    using assms(1) by (simp add: wakeup_inv_def d_def)
  then have "unat (cbWakeupNotifs s) \<le> d"
    by (simp add: unat_of_nat)
  then have "min (min (unat (cbWakeupNotifs s)) 1024) d = min 1024 (unat (cbWakeupNotifs s))"
    by simp
  then show ?thesis
    using assms(2)
    by (simp add: drvNATAsyncIoThread_drain_def RTPipeRead_def Let_def d_def)
qed

lemma drain_win_not_readable:
  "revents AND POLLIN HOST_WINDOWS = 0 \<Longrightarrow> drvNATAsyncIoThread_drain_win revents outcome s = s"
  by (simp add: drvNATAsyncIoThread_drain_win_def)

lemma drain_win_readable:
  assumes "wakeup_inv s" and "revents AND POLLIN HOST_WINDOWS \<noteq> 0"
  shows "drvNATAsyncIoThread_drain_win revents (Some n) s =
     s\<lparr>hPipeRead := hPipeRead s + min n (min 1024 (unat (cbWakeupNotifs s))),
       cbWakeupNotifs := cbWakeupNotifs s - of_nat (min n (min 1024 (unat (cbWakeupNotifs s))))\<rparr>"
proof -
  define d where "d = hPipeWrite s - hPipeRead s"
  have "cbWakeupNotifs s = of_nat d"
    using assms(1) by (simp add: wakeup_inv_def d_def)
  then have "unat (cbWakeupNotifs s) \<le> d"
    by (simp add: unat_of_nat)
  then have "min (min (unat (cbWakeupNotifs s)) 1024) d = min 1024 (unat (cbWakeupNotifs s))"
    by simp
  then show ?thesis
    unfolding drain_win_taken [OF assms(2)] d_def by simp
qed

text \<open>
  A \<open>recv\<close> that fails in a round in which index 0 signals readable: the \<open>SOCKET_ERROR\<close> it
  returns becomes \<open>2^64 - 1\<close> in \<open>cbRead\<close>, and subtracting that adds one to the counter
  while the channel has lost nothing.
\<close>

lemma drain_win_recv_failed:
  "revents AND POLLIN HOST_WINDOWS \<noteq> 0 \<Longrightarrow>
   drvNATAsyncIoThread_drain_win revents None s = s\<lparr>cbWakeupNotifs := cbWakeupNotifs s + 1\<rparr>"
  by (simp add: drvNATAsyncIoThread_drain_win_def recv_def SOCKET_ERROR_def)

text \<open>
  C8 (as amended). In every state that a run of whole operations of the driver reaches from
  the constructed instance, in either compilation and as long as no \<open>recv\<close> on the wakeup
  socket of the Windows compilation has failed, \<open>cbWakeupNotifs\<close> is the number of bytes
  written to the wakeup channel minus the number read from it (as a 64-bit counter). From
  such a state a notify whose write succeeds writes one byte and adds one to the counter,
  and one whose write fails changes nothing. A poll round in which index 0 signals readable
  (\<open>POLLRDNORM\<close>, \<open>POLLPRI\<close> or \<open>POLLRDBAND\<close> without \<open>RT_OS_WINDOWS\<close>, \<open>POLLIN\<close> with it) reads
  \<open>min(1024, cbWakeupNotifs)\<close> bytes from the pipe, and from the socket as many of them as
  \<open>recv\<close> hands over, and subtracts the number read; a round in which it does not signal
  changes nothing. The states inside a notify, between its write and its increment, are not
  among these.
\<close>

theorem wakeup_counter_tracks_pipe:
  assumes "run env ops (snd (snd (drvNATConstruct cenv DRVNAT_zero))) = Some s"
    and "list_all recv_succeeded ops"
  shows "cbWakeupNotifs s = of_nat (hPipeWrite s - hPipeRead s)
       \<and> hPipeRead s \<le> hPipeWrite s
       \<and> (RT_SUCCESS rc \<longrightarrow>
            hPipeWrite (drvNATNotifyNATThread rc s) = hPipeWrite s + 1
            \<and> hPipeRead (drvNATNotifyNATThread rc s) = hPipeRead s
            \<and> cbWakeupNotifs (drvNATNotifyNATThread rc s) = cbWakeupNotifs s + 1)
       \<and> (\<not> RT_SUCCESS rc \<longrightarrow> drvNATNotifyNATThread rc s = s)
       \<and> (revents AND (POLLRDNORM HOST_POSIX OR POLLPRI HOST_POSIX OR POLLRDBAND HOST_POSIX) \<noteq> 0
            \<longrightarrow>
            hPipeRead (drvNATAsyncIoThread_drain revents s) =
              hPipeRead s + min 1024 (unat (cbWakeupNotifs s))
            \<and> hPipeWrite (drvNATAsyncIoThread_drain revents s) = hPipeWrite s
            \<and> cbWakeupNotifs (drvNATAsyncIoThread_drain revents s) =
              cbWakeupNotifs s - of_nat (min 1024 (unat (cbWakeupNotifs s))))
       \<and> (revents AND (POLLRDNORM HOST_POSIX OR POLLPRI HOST_POSIX OR POLLRDBAND HOST_POSIX) = 0
            \<longrightarrow> drvNATAsyncIoThread_drain revents s = s)
       \<and> hPipeWrite (drvNATNotifyNATThread_win False s) = hPipeWrite s + 1
       \<and> hPipeRead (drvNATNotifyNATThread_win False s) = hPipeRead s
       \<and> cbWakeupNotifs (drvNATNotifyNATThread_win False s) = cbWakeupNotifs s + 1
       \<and> drvNATNotifyNATThread_win True s = s
       \<and> (reventsW AND POLLIN HOST_WINDOWS \<noteq> 0 \<longrightarrow>
            hPipeRead (drvNATAsyncIoThread_drain_win reventsW (Some n) s) =
              hPipeRead s + min n (min 1024 (unat (cbWakeupNotifs s)))
            \<and> hPipeWrite (drvNATAsyncIoThread_drain_win reventsW (Some n) s) = hPipeWrite s
            \<and> cbWakeupNotifs (drvNATAsyncIoThread_drain_win reventsW (Some n) s) =
              cbWakeupNotifs s - of_nat (min n (min 1024 (unat (cbWakeupNotifs s)))))
       \<and> (reventsW AND POLLIN HOST_WINDOWS = 0 \<longrightarrow>
            drvNATAsyncIoThread_drain_win reventsW outcome s = s)"
proof -
  have inv: "wakeup_inv s"
    using run_keeps [OF assms(1)] assms(2) construct_wakeup_inv by blast
  then have "cbWakeupNotifs s = of_nat (hPipeWrite s - hPipeRead s)"
    "hPipeRead s \<le> hPipeWrite s"
    by (simp_all add: wakeup_inv_def)
  moreover have "RT_SUCCESS rc \<longrightarrow>
            hPipeWrite (drvNATNotifyNATThread rc s) = hPipeWrite s + 1
            \<and> hPipeRead (drvNATNotifyNATThread rc s) = hPipeRead s
            \<and> cbWakeupNotifs (drvNATNotifyNATThread rc s) = cbWakeupNotifs s + 1"
    by (simp add: notify_fields)
  moreover have "\<not> RT_SUCCESS rc \<longrightarrow> drvNATNotifyNATThread rc s = s"
    by (simp add: notify_failed)
  moreover have
    "revents AND (POLLRDNORM HOST_POSIX OR POLLPRI HOST_POSIX OR POLLRDBAND HOST_POSIX) \<noteq> 0
            \<longrightarrow>
            hPipeRead (drvNATAsyncIoThread_drain revents s) =
              hPipeRead s + min 1024 (unat (cbWakeupNotifs s))
            \<and> hPipeWrite (drvNATAsyncIoThread_drain revents s) = hPipeWrite s
            \<and> cbWakeupNotifs (drvNATAsyncIoThread_drain revents s) =
              cbWakeupNotifs s - of_nat (min 1024 (unat (cbWakeupNotifs s)))"
    using drain_readable [OF inv, of revents] by simp
  moreover have
    "revents AND (POLLRDNORM HOST_POSIX OR POLLPRI HOST_POSIX OR POLLRDBAND HOST_POSIX) = 0
            \<longrightarrow> drvNATAsyncIoThread_drain revents s = s"
    using drain_not_readable [of revents s] by blast
  moreover have "hPipeWrite (drvNATNotifyNATThread_win False s) = hPipeWrite s + 1"
    "hPipeRead (drvNATNotifyNATThread_win False s) = hPipeRead s"
    "cbWakeupNotifs (drvNATNotifyNATThread_win False s) = cbWakeupNotifs s + 1"
    "drvNATNotifyNATThread_win True s = s"
    by (simp_all add: notify_win_as_posix notify_fields notify_failed)
  moreover have "reventsW AND POLLIN HOST_WINDOWS \<noteq> 0 \<longrightarrow>
            hPipeRead (drvNATAsyncIoThread_drain_win reventsW (Some n) s) =
              hPipeRead s + min n (min 1024 (unat (cbWakeupNotifs s)))
            \<and> hPipeWrite (drvNATAsyncIoThread_drain_win reventsW (Some n) s) = hPipeWrite s
            \<and> cbWakeupNotifs (drvNATAsyncIoThread_drain_win reventsW (Some n) s) =
              cbWakeupNotifs s - of_nat (min n (min 1024 (unat (cbWakeupNotifs s))))"
    using drain_win_readable [OF inv, of reventsW n] by simp
  moreover have "reventsW AND POLLIN HOST_WINDOWS = 0 \<longrightarrow>
            drvNATAsyncIoThread_drain_win reventsW outcome s = s"
    using drain_win_not_readable [of reventsW outcome s] by blast
  ultimately show ?thesis
    by blast
qed

lemma sample_notified:
  "run sample_drv_env
     [OpThreadState PDMTHREADSTATE_RUNNING, OpNotify VINF_SUCCESS, OpNotify VERR_OTHER,
      OpNotify VINF_SUCCESS, OpNotify VINF_SUCCESS]
     (snd (snd (drvNATConstruct sample_env DRVNAT_zero))) =
   Some (sample_running\<lparr>hPipeWrite := 3, cbWakeupNotifs := 3\<rparr>)"
  by (simp add: sample_running_def drvNATConstruct_def sample_env_def DRVNAT_zero_def
      drvNATNotifyNATThread_def RTPipeWrite1_def Let_def)

lemma sample_notified_win:
  "run sample_drv_env
     [OpThreadState PDMTHREADSTATE_RUNNING, OpNotifyWin False, OpNotifyWin True,
      OpNotifyWin False, OpNotifyWin False, OpDrainWin (POLLIN HOST_WINDOWS) (Some 1),
      OpDrainWin (POLLOUT HOST_WINDOWS) None]
     (snd (snd (drvNATConstruct sample_env DRVNAT_zero))) =
   Some (sample_running\<lparr>hPipeWrite := 3, hPipeRead := 1, cbWakeupNotifs := 2\<rparr>)"
  by (simp add: sample_running_def drvNATConstruct_def sample_env_def DRVNAT_zero_def
      notify_win_as_posix drvNATNotifyNATThread_def RTPipeWrite1_def
      drvNATAsyncIoThread_drain_win_def recv_def Let_def)

theorem wakeup_counter_tracks_pipe_witness:
  "cbWakeupNotifs (sample_running\<lparr>hPipeWrite := 3, cbWakeupNotifs := 3\<rparr>) = 3
   \<and> hPipeRead (drvNATAsyncIoThread_drain (POLLRDNORM HOST_POSIX)
        (sample_running\<lparr>hPipeWrite := 3, cbWakeupNotifs := 3\<rparr>)) = 3
   \<and> cbWakeupNotifs (drvNATAsyncIoThread_drain (POLLRDNORM HOST_POSIX)
        (sample_running\<lparr>hPipeWrite := 3, cbWakeupNotifs := 3\<rparr>)) = 0
   \<and> cbWakeupNotifs (drvNATNotifyNATThread VINF_SUCCESS
        (sample_running\<lparr>hPipeWrite := 3, cbWakeupNotifs := 3\<rparr>)) = 4
   \<and> cbWakeupNotifs (sample_running\<lparr>hPipeWrite := 3, hPipeRead := 1, cbWakeupNotifs := 2\<rparr>) = 2
   \<and> hPipeRead (drvNATAsyncIoThread_drain_win (POLLIN HOST_WINDOWS) (Some 1)
        (sample_running\<lparr>hPipeWrite := 3, hPipeRead := 1, cbWakeupNotifs := 2\<rparr>)) = 2
   \<and> cbWakeupNotifs (drvNATAsyncIoThread_drain_win (POLLIN HOST_WINDOWS) (Some 1)
        (sample_running\<lparr>hPipeWrite := 3, hPipeRead := 1, cbWakeupNotifs := 2\<rparr>)) = 1
   \<and> cbWakeupNotifs (drvNATNotifyNATThread_win False
        (sample_running\<lparr>hPipeWrite := 3, hPipeRead := 1, cbWakeupNotifs := 2\<rparr>)) = 3"
  using
    wakeup_counter_tracks_pipe [OF sample_notified, of VINF_SUCCESS "POLLRDNORM HOST_POSIX"
      "POLLIN HOST_WINDOWS" 1 None]
    wakeup_counter_tracks_pipe [OF sample_notified_win, of VINF_SUCCESS "POLLRDNORM HOST_POSIX"
      "POLLIN HOST_WINDOWS" 1 None]
  by (simp add: sample_running_eval DRVNAT_zero_def)

text \<open>
  Inside a notify, after the byte is written and before the counter is incremented, the
  channel holds one byte and the counter is still 0: the counter is behind by one for
  each notify that is between its two steps.
\<close>

theorem wakeup_counter_between_counterexample:
  "run sample_drv_env [OpThreadState PDMTHREADSTATE_RUNNING]
     (snd (snd (drvNATConstruct sample_env DRVNAT_zero))) = Some sample_running
   \<and> hPipeWrite (RTPipeWrite1 VINF_SUCCESS sample_running)
       - hPipeRead (RTPipeWrite1 VINF_SUCCESS sample_running) = 1
   \<and> cbWakeupNotifs (RTPipeWrite1 VINF_SUCCESS sample_running) = 0
   \<and> drvNATNotifyNATThread VINF_SUCCESS sample_running =
       (RTPipeWrite1 VINF_SUCCESS sample_running)\<lparr>cbWakeupNotifs := 1\<rparr>
   \<and> hPipeWrite (snd (send False sample_running))
       - hPipeRead (snd (send False sample_running)) = 1
   \<and> cbWakeupNotifs (snd (send False sample_running)) = 0
   \<and> drvNATNotifyNATThread_win False sample_running =
       (snd (send False sample_running))\<lparr>cbWakeupNotifs := 1\<rparr>"
proof (intro conjI)
  show "run sample_drv_env [OpThreadState PDMTHREADSTATE_RUNNING]
     (snd (snd (drvNATConstruct sample_env DRVNAT_zero))) = Some sample_running"
    by (simp add: sample_running_def)
qed (simp_all add: sample_running_eval DRVNAT_zero_def drvNATNotifyNATThread_def
      RTPipeWrite1_def drvNATNotifyNATThread_win_def send_def SOCKET_ERROR_def Let_def)

subsection \<open>The guest address of a redirect command\<close>

lemma ApplyPortForward_add_unparsed:
  assumes "pGuestIp = None \<or> (\<exists>str. pGuestIp = Some str \<and> f str = None)"
  shows "\<exists>hostIp.
     drvNATNotifyApplyPortForwardCommand f s False fUdp pHostIp hp pGuestIp gp =
       slirp_call (Slirp_add_hostfwd fUdp hostIp hp (GuestIP s) gp) s"
proof -
  have "(case pGuestIp of None \<Rightarrow> GuestIP s
         | Some str \<Rightarrow> (case f str of None \<Rightarrow> GuestIP s | Some a \<Rightarrow> a)) = GuestIP s"
    using assms by auto
  then have "drvNATNotifyApplyPortForwardCommand f s False fUdp pHostIp hp pGuestIp gp =
       slirp_call (Slirp_add_hostfwd fUdp
         (case pHostIp of None \<Rightarrow> INADDR_ANY
          | Some h \<Rightarrow> (case f h of None \<Rightarrow> INADDR_ANY | Some a \<Rightarrow> a)) hp (GuestIP s) gp) s"
    by (simp add: drvNATNotifyApplyPortForwardCommand_def Let_def)
  then show ?thesis
    by (rule exI)
qed

text \<open>
  C10. \<open>GuestIP\<close> is zero in the instance the constructor leaves (the instance data comes
  zero-filled) and no operation of a run changes it; so for every redirect command that adds
  a rule and whose guest address string is null or does not parse, the guest address handed
  to \<open>slirp_add_hostfwd\<close> is \<open>INADDR_ANY\<close>.
\<close>

theorem GuestIP_stays_zero:
  assumes "run env ops (snd (snd (drvNATConstruct cenv DRVNAT_zero))) = Some s"
    and "pGuestIp = None \<or> (\<exists>str. pGuestIp = Some str \<and> env_inet_aton env str = None)"
  shows "GuestIP (snd (snd (drvNATConstruct cenv DRVNAT_zero))) = 0
       \<and> GuestIP s = 0
       \<and> (\<exists>hostIp.
            slirpCalls (drvNATNotifyApplyPortForwardCommand (env_inet_aton env) s False fUdp
                          pHostIp hp pGuestIp gp) =
              slirpCalls s @ [Slirp_add_hostfwd fUdp hostIp hp INADDR_ANY gp])"
proof -
  have z: "GuestIP DRVNAT_zero = 0"
    by (simp add: DRVNAT_zero_def)
  then have c: "GuestIP (snd (snd (drvNATConstruct cenv DRVNAT_zero))) = 0"
    by (simp add: construct_keeps_GuestIP)
  with run_keeps [OF assms(1)] have g: "GuestIP s = 0"
    by simp
  from ApplyPortForward_add_unparsed [OF assms(2), of s fUdp pHostIp hp gp]
  obtain hostIp where
    "drvNATNotifyApplyPortForwardCommand (env_inet_aton env) s False fUdp pHostIp hp pGuestIp gp =
       slirp_call (Slirp_add_hostfwd fUdp hostIp hp (GuestIP s) gp) s"
    by blast
  then have "slirpCalls (drvNATNotifyApplyPortForwardCommand (env_inet_aton env) s False fUdp
                          pHostIp hp pGuestIp gp) =
              slirpCalls s @ [Slirp_add_hostfwd fUdp hostIp hp INADDR_ANY gp]"
    by (simp add: slirp_call_def g INADDR_ANY_def)
  with c g show ?thesis
    by blast
qed

lemma sample_started:
  "run sample_drv_env [OpThreadState PDMTHREADSTATE_RUNNING]
     (snd (snd (drvNATConstruct sample_env DRVNAT_zero))) = Some sample_running"
  by (simp add: sample_running_def)

theorem GuestIP_stays_zero_witness:
  "GuestIP sample_running = 0
   \<and> slirpCalls (drvNATNotifyApplyPortForwardCommand (env_inet_aton sample_drv_env)
        sample_running False False (Some ''0.0.0.0'') 2222 (Some ''10.0.2.256'') 22) =
       [Slirp_add_hostfwd False 0 2222 0 22]
   \<and> slirpCalls (drvNATNotifyApplyPortForwardCommand (env_inet_aton sample_drv_env)
        sample_running False True None 53 None 53) =
       [Slirp_add_hostfwd True 0 53 0 53]"
proof -
  have a: "Some ''10.0.2.256'' = None \<or>
      (\<exists>str. Some ''10.0.2.256'' = Some str \<and> env_inet_aton sample_drv_env str = None)"
    by (simp add: sample_drv_env_def)
  have b: "(None :: string option) = None \<or>
      (\<exists>str. (None :: string option) = Some str \<and> env_inet_aton sample_drv_env str = None)"
    by simp
  from GuestIP_stays_zero [OF sample_started a, of False "Some ''0.0.0.0''" 2222 22]
    GuestIP_stays_zero [OF sample_started b, of True None 53 53]
  show ?thesis
    by (simp add: drvNATNotifyApplyPortForwardCommand_def slirp_call_def sample_drv_env_def
        sample_running_eval DRVNAT_zero_def INADDR_ANY_def Let_def)
qed

subsection \<open>Timers\<close>

lemma sample_two_timers_eval:
  "sample_two_timers =
     sample_running\<lparr>pTimerHead := Some 30,
       timerMem := (timerMem sample_running)
          (20 \<mapsto> \<lparr>next_timer = None, uTimeExpire = 0, pHandler = 1, opaque = 0\<rparr>,
           30 \<mapsto> \<lparr>next_timer = Some 20, uTimeExpire = 0, pHandler = 1, opaque = 0\<rparr>),
       memAllocated := [20, 30]\<rparr>"
  by (simp add: sample_two_timers_def drvNAT_TimerNewCb_def RTMemAlloc_Some Let_def
      sample_running_eval DRVNAT_zero_def)

lemma TimerFree_loop_keeps_links:
  "drvNAT_TimerFreeCb_loop pTimer pCurrent s = Some s' \<Longrightarrow>
   pTimerHead s' = pTimerHead s
   \<and> (\<forall>a. timerMem s' a = None \<or> timerMem s' a = timerMem s a)"
proof (induction pTimer pCurrent s s' rule: drvNAT_TimerFreeCb_loop.raw_induct [rotated 1, consumes 1])
  case (1 loop pTimer pCurrent pThis y)
  show ?case
  proof (cases pCurrent)
    case None
    with 1(2) show ?thesis by simp
  next
    case (Some p)
    show ?thesis
    proof (cases "timerMem pThis p")
      case None
      with Some 1(2) show ?thesis by simp
    next
      case t: (Some t)
      show ?thesis
      proof (cases "pCurrent = pTimer")
        case True
        with Some t 1(2) have "loop pTimer (next_timer t) (RTMemFree_timer p pThis) = Some y"
          by simp
        from 1(1) [OF this] show ?thesis
          by (auto simp: RTMemFree_timer_def RTMemFree_Some split: if_splits)
      next
        case False
        with Some t 1(2) have "loop pTimer (next_timer t) pThis = Some y"
          by simp
        from 1(1) [OF this] show ?thesis .
      qed
    qed
  qed
qed

text \<open>
  C2 (the code at the failing input). Freeing the timer at the head of a list of two gives
  its memory back and leaves the list as it was: the head still points to the freed node,
  its memory is gone, and the next walk of the list reads freed memory.
\<close>

theorem timerFree_does_not_unlink:
  "map_option pTimerHead (drvNAT_TimerFreeCb sample_two_timers (Some 30)) = Some (Some 30)
   \<and> map_option memFreed (drvNAT_TimerFreeCb sample_two_timers (Some 30)) = Some [30]
   \<and> map_option (\<lambda>s. timerMem s 30) (drvNAT_TimerFreeCb sample_two_timers (Some 30)) = Some None
   \<and> map_option (\<lambda>s. map_option next_timer (timerMem s 20))
        (drvNAT_TimerFreeCb sample_two_timers (Some 30)) = Some (Some None)
   \<and> Option.bind (drvNAT_TimerFreeCb sample_two_timers (Some 30))
        (\<lambda>s. drvNAT_UpdateTimeout s 0 DRVNAT_DEFAULT_TIMEOUT) = None"
  by (simp add: drvNAT_TimerFreeCb_def sample_two_timers_eval drvNAT_TimerFreeCb_loop.simps
      RTMemFree_timer_def RTMemFree_Some sample_running_eval DRVNAT_zero_def
      drvNAT_UpdateTimeout_def drvNAT_UpdateTimeout_loop.simps)

lemma sample_armed_eval:
  "pTimerHead sample_armed = Some 20"
  "timerMem sample_armed 20 =
     Some \<lparr>next_timer = None, uTimeExpire = 100, pHandler = 1, opaque = 0\<rparr>"
  by (simp_all add: sample_armed_def drvNAT_TimerNewCb_def RTMemAlloc_Some Let_def)

lemma sample_armed_by_mod:
  "drvNAT_TimerModCb (snd (drvNAT_TimerNewCb sample_running 1 0 (Some 20))) (Some 20) 100
     = Some sample_armed"
  by (simp add: sample_armed_def drvNAT_TimerModCb_def drvNAT_TimerNewCb_def RTMemAlloc_Some Let_def
      sample_running_eval DRVNAT_zero_def)

lemma sint_ucast_32_64: "sint (ucast (w :: 32 word) :: 64 word) = uint w"
proof -
  have "uint w < 2 ^ 32"
    using uint_bounded [of w] by simp
  then have "uint w < 2 ^ 63"
    by simp
  moreover have "- (2 ^ 63) \<le> uint w"
    by (rule order_trans [OF _ uint_nonnegative]) simp
  ultimately have "signed_take_bit 63 (uint w) = uint w"
    by (intro signed_take_bit_int_eq_self) simp_all
  then show ?thesis
    by (simp add: signed_ucast_eq)
qed

lemma UpdateTimeout_diff_nonneg: "0 \<le> sint (ucast (a - b :: 32 word) :: 64 word)"
  by (simp only: sint_ucast_32_64 uint_nonnegative)


lemma ucast_32_64_32: "(ucast (ucast (w :: 32 word) :: 64 word) :: 32 word) = w"
  by (rule bit_eqI) (simp add: bit_simps)

lemma UpdateTimeout_step_wraps:
  "UpdateTimeout_step currTime t uTimeout =
     (if uTimeExpire t = 0 then uTimeout
      else if uTimeExpire t - currTime < uTimeout then uTimeExpire t - currTime
      else uTimeout)"
  by (simp add: UpdateTimeout_step_def Let_def sint_ucast_32_64 word_less_def ucast_32_64_32
      flip: not_le)

text \<open>
  C3 (the code at the failing input). One timer is armed for the millisecond 100 and the
  clock stands at 200 ms: the expiry is in the past, yet the timeout stays at its default
  of 3600000 ms instead of becoming 0. The difference of the two 32-bit values wraps to
  4294967196 and is never negative; \<open>drvNAT_CheckTimeout\<close>, which keeps the time in 64
  bits, finds the difference -100. With the clock at 50 ms the timeout becomes 50.
\<close>

theorem updateTimeout_past_expiry_not_clamped:
  "drvNAT_UpdateTimeout sample_armed 200000000 DRVNAT_DEFAULT_TIMEOUT = Some 3600000
   \<and> CheckTimeout_diff 200000000
        \<lparr>next_timer = None, uTimeExpire = 100, pHandler = 1, opaque = 0\<rparr> = - 100
   \<and> drvNAT_UpdateTimeout sample_armed 50000000 DRVNAT_DEFAULT_TIMEOUT = Some 50"
  by (simp add: drvNAT_UpdateTimeout_def drvNAT_UpdateTimeout_loop.simps sample_armed_eval
      UpdateTimeout_step_def UpdateTimeout_currTime_def CheckTimeout_diff_def
      DRVNAT_DEFAULT_TIMEOUT_def signed_divide_int_def Let_def)

subsection \<open>The receive path\<close>

lemma sample_packet_parked_eval:
  "sample_packet_parked =
     sample_running\<lparr>hRecvReqQueue := [ReqRecvWorker (Some 40) 60], hPipeWrite := 1,
       cbWakeupNotifs := 1, EventRecv := True, cPkts := 1, memAllocated := [40]\<rparr>"
  by (simp add: sample_packet_parked_def drvNAT_SendPacketCb_def RTMemAlloc_Some Let_def
      RTReqQueueCallEx_NoWait_def drvNATRecvWakeup_def drvNATNotifyNATThread_def
      RTPipeWrite1_def sample_running_eval DRVNAT_zero_def)

lemma RTMemFree_blocks: "RTMemFree a s = s\<lparr>memFreed := memFreed s @ blocks_of [a]\<rparr>"
  by (cases a) (simp_all add: RTMemFree_def)

lemma RecvWorker_effect:
  "memFreed (drvNATRecvWorker s pBuf cb rcWait rcPipe) =
     memFreed s @ (if RT_SUCCESS rcWait then blocks_of [pBuf] else [])"
  "DevAccessLock (drvNATRecvWorker s pBuf cb rcWait rcPipe) = DevAccessLock s"
  "cPkts (drvNATRecvWorker s pBuf cb rcWait rcPipe) = cPkts s - 1"
  "hPipeWrite (drvNATRecvWorker s pBuf cb rcWait rcPipe) =
     hPipeWrite s + (if RT_SUCCESS rcPipe then 1 else 0)"
  by (simp_all add: drvNATRecvWorker_def Let_def notify_fields RTMemFree_blocks
      RTCritSectEnter_DevAccessLock_def RTCritSectLeave_DevAccessLock_def pfnReceive_def)

text \<open>
  C4 (the code at the failing input). The receive thread takes the parked packet and the
  device port's wait times out: the lock is released, the counter goes back to 0 and the
  wakeup channel is poked, but the packet buffer at 40 is not freed and nothing refers to
  it any more. When the wait succeeds the buffer is freed.
\<close>

theorem recvWorker_timeout_keeps_buffer:
  "map_option memAllocated
     (exec sample_drv_env (OpRecvReqProcess VERR_TIMEOUT VINF_SUCCESS) sample_packet_parked)
     = Some [40]
   \<and> map_option memFreed
     (exec sample_drv_env (OpRecvReqProcess VERR_TIMEOUT VINF_SUCCESS) sample_packet_parked)
     = Some []
   \<and> map_option hRecvReqQueue
     (exec sample_drv_env (OpRecvReqProcess VERR_TIMEOUT VINF_SUCCESS) sample_packet_parked)
     = Some []
   \<and> map_option DevAccessLock
     (exec sample_drv_env (OpRecvReqProcess VERR_TIMEOUT VINF_SUCCESS) sample_packet_parked)
     = Some 0
   \<and> map_option cPkts
     (exec sample_drv_env (OpRecvReqProcess VERR_TIMEOUT VINF_SUCCESS) sample_packet_parked)
     = Some 0
   \<and> map_option hPipeWrite
     (exec sample_drv_env (OpRecvReqProcess VERR_TIMEOUT VINF_SUCCESS) sample_packet_parked)
     = Some 2
   \<and> map_option memFreed
     (exec sample_drv_env (OpRecvReqProcess VINF_SUCCESS VINF_SUCCESS) sample_packet_parked)
     = Some [40]"
  by (simp add: sample_packet_parked_eval drvNATRecvWorker_def RTMemFree_Some Let_def
      RTCritSectEnter_DevAccessLock_def RTCritSectLeave_DevAccessLock_def pfnReceive_def
      drvNATNotifyNATThread_def RTPipeWrite1_def sample_running_eval DRVNAT_zero_def)

lemma SendPacketCb_effect:
  assumes "pSlirpThread_enmState s = PDMTHREADSTATE_RUNNING"
  shows "cPkts (snd (drvNAT_SendPacketCb s cb (Some p) rcQueue rcPipe)) = cPkts s + 1"
    "hRecvReqQueue (snd (drvNAT_SendPacketCb s cb (Some p) rcQueue rcPipe)) =
       (if RT_SUCCESS rcQueue then hRecvReqQueue s @ [ReqRecvWorker (Some p) cb]
        else hRecvReqQueue s)"
  using assms
  by (simp_all add: drvNAT_SendPacketCb_def Let_def notify_fields RTMemAlloc_Some
      RTReqQueueCallEx_NoWait_def drvNATRecvWakeup_def)

text \<open>
  C5 (the code at the failing input). The engine hands a packet over while the receive
  queue refuses the request: the callback still reports the 60 bytes as accepted and has
  counted the packet, though no worker is parked; the queue is empty and stays so, and the
  counter stays at 1.
\<close>

theorem sendPacket_refused_enqueue_counts:
  "fst (drvNAT_SendPacketCb sample_running 60 (Some 40) VERR_NO_MEMORY VINF_SUCCESS) = 60
   \<and> hRecvReqQueue (snd (drvNAT_SendPacketCb sample_running 60 (Some 40) VERR_NO_MEMORY VINF_SUCCESS))
       = []
   \<and> cPkts (snd (drvNAT_SendPacketCb sample_running 60 (Some 40) VERR_NO_MEMORY VINF_SUCCESS)) = 1
   \<and> map_option cPkts
       (exec sample_drv_env (OpRecvReqProcess VINF_SUCCESS VINF_SUCCESS)
          (snd (drvNAT_SendPacketCb sample_running 60 (Some 40) VERR_NO_MEMORY VINF_SUCCESS)))
       = Some 1"
  by (simp add: drvNAT_SendPacketCb_def RTMemAlloc_Some Let_def
      RTReqQueueCallEx_NoWait_def drvNATRecvWakeup_def drvNATNotifyNATThread_def
      RTPipeWrite1_def sample_running_eval DRVNAT_zero_def)

subsection \<open>The in-flight counter over a run\<close>

lemma cPkts_inv_updates [simp]:
  "cPkts_inv (s\<lparr>enmLinkState := l\<rparr>) = cPkts_inv s"
  "cPkts_inv (s\<lparr>enmLinkStateWant := l\<rparr>) = cPkts_inv s"
  "cPkts_inv (s\<lparr>pSlirpThread_enmState := t\<rparr>) = cPkts_inv s"
  "cPkts_inv (s\<lparr>hPipeWrite := w\<rparr>) = cPkts_inv s"
  "cPkts_inv (s\<lparr>hPipeRead := r\<rparr>) = cPkts_inv s"
  "cPkts_inv (s\<lparr>cbWakeupNotifs := c\<rparr>) = cPkts_inv s"
  "cPkts_inv (s\<lparr>EventRecv := e\<rparr>) = cPkts_inv s"
  "cPkts_inv (s\<lparr>DevAccessLock := n\<rparr>) = cPkts_inv s"
  "cPkts_inv (s\<lparr>pTimerHead := h\<rparr>) = cPkts_inv s"
  "cPkts_inv (s\<lparr>timerMem := m\<rparr>) = cPkts_inv s"
  "cPkts_inv (s\<lparr>memAllocated := as\<rparr>) = cPkts_inv s"
  "cPkts_inv (s\<lparr>memFreed := fs\<rparr>) = cPkts_inv s"
  "cPkts_inv (s\<lparr>slirpCalls := cs\<rparr>) = cPkts_inv s"
  "cPkts_inv (s\<lparr>aboveNetReceived := rs\<rparr>) = cPkts_inv s"
  by (simp_all add: cPkts_inv_def)

lemma cPkts_inv_prims [simp]:
  "cPkts_inv (RTMemAlloc a s) = cPkts_inv s"
  "cPkts_inv (RTMemFree a s) = cPkts_inv s"
  "cPkts_inv (drvNATNotifyNATThread rc s) = cPkts_inv s"
  "cPkts_inv (drvNATAsyncIoThread_drain revents s) = cPkts_inv s"
  "cPkts_inv (slirp_call c s) = cPkts_inv s"
  "cPkts_inv (drvNATRecvWakeup s) = cPkts_inv s"
  "cPkts_inv (RTCritSectEnter_DevAccessLock s) = cPkts_inv s"
  "cPkts_inv (RTCritSectLeave_DevAccessLock s) = cPkts_inv s"
  "cPkts_inv (pfnReceive pBuf cb s) = cPkts_inv s"
  "cPkts_inv (drvNATNotifyLinkChangedWorker s l) = cPkts_inv s"
  "cPkts_inv (RTMemFree_timer p s) = cPkts_inv s"
  by (simp_all add: RTMemAlloc_def RTMemFree_def drvNATNotifyNATThread_def RTPipeWrite1_def
      drvNATAsyncIoThread_drain_def RTPipeRead_def slirp_call_def drvNATRecvWakeup_def
      RTCritSectEnter_DevAccessLock_def RTCritSectLeave_DevAccessLock_def pfnReceive_def
      drvNATNotifyLinkChangedWorker_def RTMemFree_timer_def Let_def split: option.split)

lemma cPkts_inv_win [simp]:
  "cPkts_inv (drvNATNotifyNATThread_win fFails s) = cPkts_inv s"
  "cPkts_inv (drvNATAsyncIoThread_drain_win revents outcome s) = cPkts_inv s"
  by (simp_all add: notify_win_as_posix drvNATAsyncIoThread_drain_win_def recv_def Let_def
      split: option.split)

lemma cPkts_inv_park:
  "is_RecvWorker r = False \<Longrightarrow>
   cPkts_inv (s\<lparr>hSlirpReqQueue := hSlirpReqQueue s @ [r]\<rparr>) = cPkts_inv s"
  by (simp add: cPkts_inv_def)

lemma cPkts_inv_others [simp]:
  "cPkts_inv (drvNATFreeSgBuf s b) = cPkts_inv s"
  "cPkts_inv (snd (snd (drvNATNetworkUp_AllocBuf s cbMin pGso aSg aSeg aGso))) = cPkts_inv s"
  "cPkts_inv (drvNATNotifyApplyPortForwardCommand f s fRemove fUdp pHostIp hp pGuestIp gp)
     = cPkts_inv s"
  "cPkts_inv (drvNATAsyncIoThread_entry s) = cPkts_inv s"
  "cPkts_inv (snd (drvNAT_TimerNewCb s cb' cb_opaque aNew)) = cPkts_inv s"
  by (simp_all add: drvNATFreeSgBuf_def drvNATNetworkUp_AllocBuf_def
      drvNATNotifyApplyPortForwardCommand_def drvNATAsyncIoThread_entry_def
      drvNAT_TimerNewCb_def Let_def split: option.split)

lemma cPkts_inv_segments [simp]:
  "cPkts_inv (fold (drvNATSendWorker_segment env gso cbFrame n) is s) = cPkts_inv s"
  by (induction "is" arbitrary: s)
    (simp_all add: drvNATSendWorker_segment_def Let_def split: prod.split)

lemma cPkts_inv_SendWorker [simp]:
  "cPkts_inv (drvNATSendWorker env s b) = cPkts_inv s"
  by (simp add: drvNATSendWorker_def Let_def split: option.split)

lemma cPkts_inv_SendBuf:
  "cPkts_inv s \<Longrightarrow> cPkts_inv (snd (drvNATNetworkUp_SendBuf s b rcQueue rcPipe))"
  by (simp add: drvNATNetworkUp_SendBuf_def RTReqQueueCallEx_NoWait_def Let_def cPkts_inv_park)

lemma cPkts_inv_NotifyLinkChanged:
  "cPkts_inv s \<Longrightarrow> cPkts_inv (drvNATNetworkUp_NotifyLinkChanged s l rcQueue rcPipe)"
  by (simp add: drvNATNetworkUp_NotifyLinkChanged_def RTReqQueueCallEx_Wait0_def Let_def
      cPkts_inv_park)

lemma cPkts_inv_Redirect:
  "cPkts_inv s \<Longrightarrow>
   cPkts_inv (snd (drvNATNetworkNatConfigRedirect f s fRemove fUdp pHostIp hp pGuestIp gp
      rcQueue rcPipe))"
  by (simp add: drvNATNetworkNatConfigRedirect_def RTReqQueueCallEx_Wait0_def Let_def
      cPkts_inv_park)

lemma cPkts_inv_SendPacketCb:
  assumes "cPkts_inv s" "RT_SUCCESS rcQueue"
  shows "cPkts_inv (snd (drvNAT_SendPacketCb s cb aNew rcQueue rcPipe))"
proof (cases aNew)
  case None
  with assms show ?thesis by (simp add: drvNAT_SendPacketCb_def)
next
  case (Some p)
  show ?thesis
  proof (cases "pSlirpThread_enmState s = PDMTHREADSTATE_RUNNING")
    case False
    with assms Some show ?thesis
      by (simp add: drvNAT_SendPacketCb_def RTMemAlloc_def Let_def)
  next
    case True
    have "cPkts_inv (s\<lparr>cPkts := cPkts s + 1,
        hRecvReqQueue := hRecvReqQueue s @ [ReqRecvWorker (Some p) cb]\<rparr>)"
      using assms(1) by (simp add: cPkts_inv_def)
    with assms(2) Some True show ?thesis
      by (simp add: drvNAT_SendPacketCb_def RTMemAlloc_def RTReqQueueCallEx_NoWait_def Let_def
          cPkts_inv_def notify_fields drvNATRecvWakeup_def)
  qed
qed

lemma cPkts_inv_RecvWorker:
  assumes "cPkts_inv (s\<lparr>hRecvReqQueue := ReqRecvWorker pBuf cb # q\<rparr>)"
  shows "cPkts_inv (drvNATRecvWorker (s\<lparr>hRecvReqQueue := q\<rparr>) pBuf cb rcWait rcPipe)"
proof -
  have "cPkts_inv (s\<lparr>hRecvReqQueue := q, cPkts := cPkts s - 1\<rparr>)"
    using assms by (simp add: cPkts_inv_def)
  then show ?thesis
    by (simp add: drvNATRecvWorker_def Let_def cPkts_inv_def
        RTCritSectEnter_DevAccessLock_def RTCritSectLeave_DevAccessLock_def pfnReceive_def
        RTMemFree_def notify_fields split: option.split)
qed

lemma cPkts_inv_exec:
  assumes "cPkts_inv s" "enqueue_accepted x" "exec env x s = Some s'"
  shows "cPkts_inv s'"
proof (cases x)
  case (OpSlirpReqProcess rcWait rcPipe)
  show ?thesis
  proof (cases "hSlirpReqQueue s")
    case Nil
    with assms OpSlirpReqProcess show ?thesis by simp
  next
    case (Cons r q)
    with assms(1) have nr: "is_RecvWorker r = False"
      and q: "cPkts_inv (s\<lparr>hSlirpReqQueue := q\<rparr>)"
      by (simp_all add: cPkts_inv_def)
    from nr q have "cPkts_inv (run_request env rcWait rcPipe r (s\<lparr>hSlirpReqQueue := q\<rparr>))"
      by (cases r) simp_all
    with assms(3) OpSlirpReqProcess Cons show ?thesis by simp
  qed
next
  case (OpRecvReqProcess rcWait rcPipe)
  show ?thesis
  proof (cases "hRecvReqQueue s")
    case Nil
    with assms OpRecvReqProcess show ?thesis by simp
  next
    case (Cons r q)
    with assms(1) obtain pBuf cb where r: "r = ReqRecvWorker pBuf cb"
      by (cases r) (simp_all add: cPkts_inv_def)
    have "s\<lparr>hRecvReqQueue := ReqRecvWorker pBuf cb # q\<rparr> = s"
      using Cons r by simp
    with assms(1) have "cPkts_inv (s\<lparr>hRecvReqQueue := ReqRecvWorker pBuf cb # q\<rparr>)"
      by simp
    from cPkts_inv_RecvWorker [OF this, of rcWait rcPipe] assms(3) OpRecvReqProcess Cons r
    show ?thesis by simp
  qed
next
  case (OpTimerMod pTimer expireTime)
  with assms(3) obtain p t where "s' = s\<lparr>timerMem := (timerMem s)(p \<mapsto> t)\<rparr>"
    by (auto simp: drvNAT_TimerModCb_def split: option.splits)
  with assms(1) show ?thesis by simp
next
  case (OpTimerFree pTimer)
  have "drvNAT_TimerFreeCb_loop pTimer pCurrent a = Some b \<Longrightarrow> cPkts_inv b = cPkts_inv a"
    for pCurrent a b
  proof (induction pTimer pCurrent a b
      rule: drvNAT_TimerFreeCb_loop.raw_induct [rotated 1, consumes 1])
    case (1 loop pTimer pCurrent pThis y)
    show ?case
    proof (cases pCurrent)
      case None
      with 1(2) show ?thesis by simp
    next
      case (Some p)
      show ?thesis
      proof (cases "timerMem pThis p")
        case None
        with Some 1(2) show ?thesis by simp
      next
        case t: (Some t)
        show ?thesis
        proof (cases "pCurrent = pTimer")
          case True
          with Some t 1(2) have "loop pTimer (next_timer t) (RTMemFree_timer p pThis) = Some y"
            by simp
          from 1(1) [OF this] show ?thesis by simp
        next
          case False
          with Some t 1(2) have "loop pTimer (next_timer t) pThis = Some y"
            by simp
          from 1(1) [OF this] show ?thesis .
        qed
      qed
    qed
  qed
  with assms OpTimerFree show ?thesis
    by (simp add: drvNAT_TimerFreeCb_def)
qed (use assms in \<open>auto simp: cPkts_inv_SendBuf cPkts_inv_NotifyLinkChanged cPkts_inv_Redirect
      cPkts_inv_SendPacketCb\<close>)

lemma cPkts_inv_run:
  "cPkts_inv s \<Longrightarrow> list_all enqueue_accepted xs \<Longrightarrow> run env xs s = Some s' \<Longrightarrow> cPkts_inv s'"
proof (induction xs arbitrary: s)
  case Nil
  then show ?case by simp
next
  case (Cons x xs)
  then obtain s1 where x: "exec env x s = Some s1" and xs: "run env xs s1 = Some s'"
    by (auto split: option.splits)
  from Cons.prems have "cPkts_inv s1"
    using cPkts_inv_exec [OF _ _ x] by simp
  with Cons.IH [OF _ _ xs] Cons.prems show ?case by simp
qed

lemma construct_cPkts_inv: "cPkts_inv (snd (snd (drvNATConstruct cenv DRVNAT_zero)))"
  by (simp add: drvNATConstruct_def Let_def cPkts_inv_def DRVNAT_zero_def
      split: option.split prod.split)

lemma cPkts_zero_when_drained:
  assumes "run env xs (snd (snd (drvNATConstruct cenv DRVNAT_zero))) = Some s"
    and "list_all enqueue_accepted xs"
    and "hRecvReqQueue s = []"
  shows "cPkts s = 0"
  using cPkts_inv_run [OF construct_cPkts_inv assms(2) assms(1)] assms(3)
  by (simp add: cPkts_inv_def)

end
